theory Spec2Isabelle
  imports Complex_Main "HOL-Library.AList"
begin

section \<open>The Jupiter reverse proxy (route.ts and its buffering variant)\<close>

subsection \<open>Header objects\<close>

text \<open>
  A \<open>Headers\<close> object stores one value per header name and compares names without regard
  to case: every name is lower-cased when it is written and when it is looked up. It is
  modelled as an association list whose keys are the lower-cased names.
\<close>

type_synonym headers = "(string \<times> string) list"

definition lower_char :: "char \<Rightarrow> char" where
  "lower_char c =
     (case map_of (zip ''ABCDEFGHIJKLMNOPQRSTUVWXYZ'' ''abcdefghijklmnopqrstuvwxyz'') c of
        Some d \<Rightarrow> d
      | None \<Rightarrow> c)"

definition lower :: "string \<Rightarrow> string" where
  "lower s = map lower_char s"

definition hset :: "string \<Rightarrow> string \<Rightarrow> headers \<Rightarrow> headers" where
  "hset name v h = AList.update (lower name) v h"

definition hget :: "string \<Rightarrow> headers \<Rightarrow> string option" where
  "hget name h = map_of h (lower name)"

definition hhas :: "string \<Rightarrow> headers \<Rightarrow> bool" where
  "hhas name h = (hget name h \<noteq> None)"

definition hdelete :: "string \<Rightarrow> headers \<Rightarrow> headers" where
  "hdelete name h = AList.delete (lower name) h"

definition CORS_HEADERS :: "(string \<times> string) list" where
  "CORS_HEADERS =
     [(''Access-Control-Allow-Origin'', ''*''),
      (''Access-Control-Allow-Methods'', ''GET,POST,OPTIONS''),
      (''Access-Control-Allow-Headers'', ''Content-Type, Authorization, X-Requested-With''),
      (''Access-Control-Max-Age'', ''86400'')]"

text \<open>\<open>applyCors\<close>: every entry of \<open>CORS_HEADERS\<close> is set, in order.\<close>

definition applyCors :: "headers \<Rightarrow> headers" where
  "applyCors h = foldl (\<lambda>acc (key, v). hset key v acc) h CORS_HEADERS"

subsection \<open>Requests, the upstream call and responses\<close>

text \<open>
  The incoming request as the handler reads it: its method, the \<open>path\<close> entry of the route
  parameters (absent when undefined), the query parameters in order, its headers and the
  text of its body.
\<close>

record request =
  req_method :: string
  req_path :: "string list option"
  req_searchParams :: "(string \<times> string) list"
  req_headers :: headers
  req_text :: string

text \<open>
  The target URL is kept in its parts: the base, the relative reference made of the joined
  path segments, and the query parameters appended to it. URL resolution itself is the
  platform's.
\<close>

record target_url =
  url_base :: string
  url_relative :: string
  url_search :: "(string \<times> string) list"

record fetch_call =
  call_url :: target_url
  call_method :: string
  call_headers :: headers
  call_cache :: string
  call_body :: "string option"

text \<open>
  What \<open>fetch\<close> does with the call: it rejects with a thrown value, which is an \<open>Error\<close>
  carrying a message or something else, or it resolves to the upstream response. A body is
  \<open>None\<close> where the platform has \<open>null\<close>; bodies are modelled by their text.
\<close>

datatype thrown = ErrorInstance string | OtherValue

record upstream_response =
  up_status :: nat
  up_statusText :: string
  up_headers :: headers
  up_body :: "string option"

datatype fetch_result = Rejects thrown | Resolves upstream_response

record response =
  status :: nat
  statusText :: string
  resp_headers :: headers
  resp_body :: "string option"

subsection \<open>\<open>JSON.stringify\<close> of an object of strings\<close>

definition hex_digit :: "nat \<Rightarrow> char" where
  "hex_digit n = ''0123456789abcdef'' ! (n mod 16)"

definition json_escape_char :: "char \<Rightarrow> string" where
  "json_escape_char c =
     (if c = CHR 0x22 then [CHR 0x5C, CHR 0x22]
      else if c = CHR 0x5C then [CHR 0x5C, CHR 0x5C]
      else if c = CHR 0x08 then [CHR 0x5C, CHR ''b'']
      else if c = CHR 0x0C then [CHR 0x5C, CHR ''f'']
      else if c = CHR 0x0A then [CHR 0x5C, CHR ''n'']
      else if c = CHR 0x0D then [CHR 0x5C, CHR ''r'']
      else if c = CHR 0x09 then [CHR 0x5C, CHR ''t'']
      else if (of_char c :: nat) < 32
        then [CHR 0x5C, CHR ''u'', CHR ''0'', CHR ''0'',
              hex_digit ((of_char c :: nat) div 16), hex_digit (of_char c :: nat)]
      else [c])"

definition json_string :: "string \<Rightarrow> string" where
  "json_string s = [CHR 0x22] @ concat (map json_escape_char s) @ [CHR 0x22]"

fun json_members :: "(string \<times> string) list \<Rightarrow> string" where
  "json_members [] = []"
| "json_members [(k, v)] = json_string k @ '':'' @ json_string v"
| "json_members ((k, v) # rest) = json_string k @ '':'' @ json_string v @ '','' @ json_members rest"

definition json_stringify :: "(string \<times> string) list \<Rightarrow> string" where
  "json_stringify members = ''{'' @ json_members members @ ''}''"

subsection \<open>Building the upstream call\<close>

definition strip_trailing_slash :: "string \<Rightarrow> string" where
  "strip_trailing_slash s = (if s \<noteq> [] \<and> last s = CHR ''/'' then butlast s else s)"

text \<open>
  What the handlers take from where they run: the environment variable
  \<open>JUPITER_UPSTREAM_URL\<close>, when it is set, and the message the platform gives the
  \<open>TypeError\<close> that the constructor of \<open>Response\<close> throws for a status (see below).
\<close>

record environment =
  JUPITER_UPSTREAM_URL :: "string option"
  null_body_message :: "nat \<Rightarrow> string"

definition UPSTREAM_BASE :: "environment \<Rightarrow> string" where
  "UPSTREAM_BASE env =
     strip_trailing_slash
       (case JUPITER_UPSTREAM_URL env of
          None \<Rightarrow> ''https://lite-api.jup.ag/swap/v1''
        | Some u \<Rightarrow> u)"

fun join :: "string \<Rightarrow> string list \<Rightarrow> string" where
  "join sep [] = []"
| "join sep [s] = s"
| "join sep (s # rest) = s @ sep @ join sep rest"

definition targetUrl :: "environment \<Rightarrow> request \<Rightarrow> target_url" where
  "targetUrl env request =
     (let segments = (case req_path request of None \<Rightarrow> [] | Some p \<Rightarrow> p)
      in \<lparr>url_base = UPSTREAM_BASE env @ ''/'',
          url_relative = join ''/'' segments,
          url_search = req_searchParams request\<rparr>)"

definition forwardHeaders :: "string list" where
  "forwardHeaders = [''content-type'', ''accept'', ''authorization'']"

text \<open>
  A whitelisted header is copied when the request has it with a non-empty value; then
  \<open>accept\<close> gets its default when it is still missing.
\<close>

definition forward_one :: "headers \<Rightarrow> headers \<Rightarrow> string \<Rightarrow> headers" where
  "forward_one from acc name =
     (case hget name from of
        None \<Rightarrow> acc
      | Some v \<Rightarrow> if v \<noteq> [] then hset name v acc else acc)"

definition upstream_headers :: "request \<Rightarrow> headers" where
  "upstream_headers request =
     (let headers = foldl (forward_one (req_headers request)) [] forwardHeaders
      in if \<not> hhas ''accept'' headers then hset ''accept'' ''application/json'' headers
         else headers)"

definition upstream_body :: "request \<Rightarrow> string option" where
  "upstream_body request =
     (if req_method request \<noteq> ''GET'' \<and> req_method request \<noteq> ''HEAD''
         \<and> req_method request \<noteq> ''OPTIONS''
      then (if req_text request \<noteq> [] then Some (req_text request) else None)
      else None)"

definition upstream_call :: "environment \<Rightarrow> request \<Rightarrow> fetch_call" where
  "upstream_call env request =
     \<lparr>call_url = targetUrl env request,
      call_method = req_method request,
      call_headers = upstream_headers request,
      call_cache = ''no-store'',
      call_body = upstream_body request\<rparr>"

subsection \<open>The two handlers\<close>

text \<open>
  A handler is given the incoming request, already read, and the outcome of the upstream
  call, and returns its response; the lines written to the console are left out.

  The constructor of \<open>Response\<close> throws a \<open>TypeError\<close> when it is given a body together
  with a null body status (101, 103, 204, 205 or 304); a \<open>null\<close> body goes with any status.
  The status itself is taken to lie in the range the constructor accepts, 200 to 599.
\<close>

definition null_body_status :: "nat \<Rightarrow> bool" where
  "null_body_status st \<longleftrightarrow> st = 101 \<or> st = 103 \<or> st = 204 \<or> st = 205 \<or> st = 304"

definition new_Response ::
  "environment \<Rightarrow> string option \<Rightarrow> nat \<Rightarrow> string \<Rightarrow> headers \<Rightarrow> thrown + response" where
  "new_Response env body st text hs =
     (if body \<noteq> None \<and> null_body_status st
      then Inl (ErrorInstance (null_body_message env st))
      else Inr \<lparr>status = st, statusText = text, resp_headers = hs, resp_body = body\<rparr>)"

definition body_text :: "string option \<Rightarrow> string" where
  "body_text b = (case b of None \<Rightarrow> [] | Some t \<Rightarrow> t)"

text \<open>The \<open>catch\<close> branch, the same in both files.\<close>

definition proxy_failed :: "thrown \<Rightarrow> response" where
  "proxy_failed error =
     (let message = (case error of ErrorInstance m \<Rightarrow> m | OtherValue \<Rightarrow> ''Unknown proxy error'');
          headers = applyCors (hset ''Content-Type'' ''application/json'' [])
      in \<lparr>status = 502, statusText = [],
          resp_headers = headers,
          resp_body = Some (json_stringify [(''error'', ''Jupiter proxy failed''), (''message'', message)])\<rparr>)"

text \<open>
  \<open>proxy\<close> of route.ts: the upstream body is passed through as it is unless the status is
  400 or more, in which case its text is read and the two length-related headers are removed.
  A throw of the upstream call or of the constructor ends in the \<open>catch\<close> branch.
\<close>

definition proxy :: "environment \<Rightarrow> (fetch_call \<Rightarrow> fetch_result) \<Rightarrow> request \<Rightarrow> response" where
  "proxy env fetch request =
     (case fetch (upstream_call env request) of
        Rejects error \<Rightarrow> proxy_failed error
      | Resolves upstreamResponse \<Rightarrow>
          (let responseHeaders = applyCors (up_headers upstreamResponse)
           in case (if up_status upstreamResponse \<ge> 400
                    then (let errorBody = body_text (up_body upstreamResponse);
                              responseHeaders =
                                hdelete ''content-length'' (hdelete ''content-encoding'' responseHeaders)
                          in new_Response env (Some errorBody) (up_status upstreamResponse)
                               (up_statusText upstreamResponse) responseHeaders)
                    else new_Response env (up_body upstreamResponse) (up_status upstreamResponse)
                           (up_statusText upstreamResponse) responseHeaders) of
                Inr response \<Rightarrow> response
              | Inl error \<Rightarrow> proxy_failed error))"

text \<open>
  \<open>proxy\<close> of the second file: the upstream body is read into a buffer first and the two
  headers are removed whatever the status; the buffer, which is never \<open>null\<close>, is the body
  of the response.
\<close>

definition proxy_buffered :: "environment \<Rightarrow> (fetch_call \<Rightarrow> fetch_result) \<Rightarrow> request \<Rightarrow> response" where
  "proxy_buffered env fetch request =
     (case fetch (upstream_call env request) of
        Rejects error \<Rightarrow> proxy_failed error
      | Resolves upstreamResponse \<Rightarrow>
          (let responseHeaders = applyCors (up_headers upstreamResponse);
               payload = body_text (up_body upstreamResponse);
               responseHeaders =
                 hdelete ''content-length'' (hdelete ''content-encoding'' responseHeaders)
           in case (if up_status upstreamResponse \<ge> 400
                    then (let errorText = payload
                          in new_Response env (Some errorText) (up_status upstreamResponse)
                               (up_statusText upstreamResponse) responseHeaders)
                    else new_Response env (Some payload) (up_status upstreamResponse)
                           (up_statusText upstreamResponse) responseHeaders) of
                Inr response \<Rightarrow> response
              | Inl error \<Rightarrow> proxy_failed error))"

definition GET :: "environment \<Rightarrow> (fetch_call \<Rightarrow> fetch_result) \<Rightarrow> request \<Rightarrow> response" where
  "GET env fetch request = proxy env fetch request"

definition POST :: "environment \<Rightarrow> (fetch_call \<Rightarrow> fetch_result) \<Rightarrow> request \<Rightarrow> response" where
  "POST env fetch request = proxy env fetch request"

definition OPTIONS :: response where
  "OPTIONS = \<lparr>status = 204, statusText = [], resp_headers = applyCors [], resp_body = None\<rparr>"

text \<open>A response carries the CORS headers when each of the four has its configured value.\<close>

definition carries_cors :: "response \<Rightarrow> bool" where
  "carries_cors r \<longleftrightarrow>
     hget ''Access-Control-Allow-Origin'' (resp_headers r) = Some ''*''
   \<and> hget ''Access-Control-Allow-Methods'' (resp_headers r) = Some ''GET,POST,OPTIONS''
   \<and> hget ''Access-Control-Allow-Headers'' (resp_headers r)
       = Some ''Content-Type, Authorization, X-Requested-With''
   \<and> hget ''Access-Control-Max-Age'' (resp_headers r) = Some ''86400''"

subsection \<open>Sample requests and upstream behaviours\<close>

text \<open>Two requests that differ only in a header outside the whitelist.\<close>

definition example_request :: request where
  "example_request =
     \<lparr>req_method = ''POST'', req_path = Some [''swap''], req_searchParams = [],
      req_headers = [(''content-type'', ''application/json''), (''cookie'', ''a=b'')],
      req_text = ''{}''\<rparr>"

definition example_request_2 :: request where
  "example_request_2 =
     \<lparr>req_method = ''POST'', req_path = Some [''swap''], req_searchParams = [],
      req_headers = [(''content-type'', ''application/json''), (''x-forwarded-for'', ''10.0.0.1'')],
      req_text = ''{}''\<rparr>"







definition sample_environment :: environment where
  "sample_environment =
     \<lparr>JUPITER_UPSTREAM_URL = None,
      null_body_message = (\<lambda>st. ''Invalid response status code'')\<rparr>"

section \<open>JavaScript values of the client (page.tsx)\<close>

subsection \<open>Numbers\<close>

text \<open>
  A \<open>number\<close> is NaN, an infinity or a finite value, which stands for the real number the
  double denotes. An arithmetic result is rounded to a double by \<open>rnd\<close>, the rounding of the
  platform, which the definitions take as a parameter, and overflows to an infinity beyond
  the largest double. Signed zeros are not told apart.
\<close>

datatype number = NaN | PosInfinity | NegInfinity | Finite real

definition MAX_VALUE :: real where
  "MAX_VALUE = (2 ^ 53 - 1) * 2 ^ 971"

definition to_number :: "(real \<Rightarrow> real) \<Rightarrow> real \<Rightarrow> number" where
  "to_number rnd r =
     (if rnd r > MAX_VALUE then PosInfinity
      else if rnd r < - MAX_VALUE then NegInfinity
      else Finite (rnd r))"

fun sign_of :: "number \<Rightarrow> int" where
  "sign_of NaN = 0"
| "sign_of PosInfinity = 1"
| "sign_of NegInfinity = - 1"
| "sign_of (Finite r) = (if r > 0 then 1 else if r < 0 then - 1 else 0)"

definition of_sign :: "int \<Rightarrow> number" where
  "of_sign s = (if s > 0 then PosInfinity else if s < 0 then NegInfinity else NaN)"

fun js_times :: "(real \<Rightarrow> real) \<Rightarrow> number \<Rightarrow> number \<Rightarrow> number" where
  "js_times rnd NaN y = NaN"
| "js_times rnd x NaN = NaN"
| "js_times rnd (Finite a) (Finite b) = to_number rnd (a * b)"
| "js_times rnd x y = of_sign (sign_of x * sign_of y)"

fun js_plus :: "(real \<Rightarrow> real) \<Rightarrow> number \<Rightarrow> number \<Rightarrow> number" where
  "js_plus rnd NaN y = NaN"
| "js_plus rnd x NaN = NaN"
| "js_plus rnd (Finite a) (Finite b) = to_number rnd (a + b)"
| "js_plus rnd PosInfinity NegInfinity = NaN"
| "js_plus rnd NegInfinity PosInfinity = NaN"
| "js_plus rnd (Finite a) y = y"
| "js_plus rnd x y = x"

fun js_divide :: "(real \<Rightarrow> real) \<Rightarrow> number \<Rightarrow> number \<Rightarrow> number" where
  "js_divide rnd NaN y = NaN"
| "js_divide rnd x NaN = NaN"
| "js_divide rnd (Finite a) (Finite b) =
     (if b = 0 then of_sign (sign_of (Finite a)) else to_number rnd (a / b))"
| "js_divide rnd (Finite a) y = Finite 0"
| "js_divide rnd x (Finite b) = of_sign (sign_of x * (if b < 0 then - 1 else 1))"
| "js_divide rnd x y = NaN"

fun js_less :: "number \<Rightarrow> number \<Rightarrow> bool" where
  "js_less NaN y = False"
| "js_less x NaN = False"
| "js_less (Finite a) (Finite b) = (a < b)"
| "js_less x PosInfinity = (x \<noteq> PosInfinity)"
| "js_less NegInfinity y = (y \<noteq> NegInfinity)"
| "js_less x y = False"

fun js_less_eq :: "number \<Rightarrow> number \<Rightarrow> bool" where
  "js_less_eq NaN y = False"
| "js_less_eq x NaN = False"
| "js_less_eq x y = (\<not> js_less y x)"

fun Math_floor :: "number \<Rightarrow> number" where
  "Math_floor (Finite r) = Finite (of_int \<lfloor>r\<rfloor>)"
| "Math_floor x = x"

fun Math_ceil :: "number \<Rightarrow> number" where
  "Math_ceil (Finite r) = Finite (of_int \<lceil>r\<rceil>)"
| "Math_ceil x = x"

text \<open>\<open>Math.max(x, y)\<close>: NaN when either argument is NaN.\<close>

definition Math_max :: "number \<Rightarrow> number \<Rightarrow> number" where
  "Math_max x y = (if x = NaN \<or> y = NaN then NaN else if js_less x y then y else x)"

fun Number_isFinite :: "number \<Rightarrow> bool" where
  "Number_isFinite (Finite r) = True"
| "Number_isFinite x = False"

subsection \<open>Values received from the RPC node\<close>

datatype jsval =
    Undefined
  | Null
  | Boolean bool
  | Number number
  | String string
  | Array "jsval list"
  | Object "(string \<times> jsval) list"

datatype js_error = TypeError

fun truthy :: "jsval \<Rightarrow> bool" where
  "truthy Undefined = False"
| "truthy Null = False"
| "truthy (Boolean b) = b"
| "truthy (Number n) = (n \<noteq> NaN \<and> n \<noteq> Finite 0)"
| "truthy (String s) = (s \<noteq> [])"
| "truthy (Array xs) = True"
| "truthy (Object members) = True"

fun typeof :: "jsval \<Rightarrow> string" where
  "typeof Undefined = ''undefined''"
| "typeof Null = ''object''"
| "typeof (Boolean b) = ''boolean''"
| "typeof (Number n) = ''number''"
| "typeof (String s) = ''string''"
| "typeof (Array xs) = ''object''"
| "typeof (Object members) = ''object''"

text \<open>
  Reading a property throws on \<open>undefined\<close> and \<open>null\<close>. The names read in this program
  (\<open>data\<close>, \<open>parsed\<close>, \<open>info\<close>, \<open>decimals\<close>, \<open>value\<close>) are no members of arrays, strings,
  numbers or booleans, where the read gives \<open>undefined\<close>.
\<close>

fun get_prop :: "jsval \<Rightarrow> string \<Rightarrow> js_error + jsval" where
  "get_prop Undefined name = Inl TypeError"
| "get_prop Null name = Inl TypeError"
| "get_prop (Object members) name =
     (case map_of members name of Some v \<Rightarrow> Inr v | None \<Rightarrow> Inr Undefined)"
| "get_prop v name = Inr Undefined"

text \<open>The operator \<open>in\<close> throws when its right operand is no object.\<close>

fun in_op :: "string \<Rightarrow> jsval \<Rightarrow> js_error + bool" where
  "in_op name (Object members) = Inr (map_of members name \<noteq> None)"
| "in_op name (Array xs) = Inr False"
| "in_op name v = Inl TypeError"

text \<open>Optional chaining \<open>v?.name\<close>.\<close>

definition opt_chain :: "jsval \<Rightarrow> string \<Rightarrow> js_error + jsval" where
  "opt_chain v name = (if v = Undefined \<or> v = Null then Inr Undefined else get_prop v name)"

text \<open>Sequencing of steps that may throw: the first throw ends the computation.\<close>

definition and_then :: "'e + 'a \<Rightarrow> ('a \<Rightarrow> 'e + 'b) \<Rightarrow> 'e + 'b" where
  "and_then step rest = (case step of Inr v \<Rightarrow> rest v | Inl thrown_value \<Rightarrow> Inl thrown_value)"

section \<open>Helpers of page.tsx\<close>

subsection \<open>\<open>getMintDecimals\<close>\<close>

text \<open>
  Both versions end alike: \<open>parsed?.info?.decimals\<close> is returned when it is a number, and 9
  otherwise. The argument of the functions below is \<open>info.value\<close>, the value of the
  account-info reply.
\<close>

definition decimals_or_default :: "jsval \<Rightarrow> js_error + number" where
  "decimals_or_default parsed =
     and_then (opt_chain parsed ''info'') (\<lambda>info.
     and_then (opt_chain info ''decimals'') (\<lambda>d.
       case d of Number n \<Rightarrow> Inr n | _ \<Rightarrow> Inr (Finite 9)))"

text \<open>The first version, which takes the value as \<open>unknown\<close> and tests every step.\<close>

definition getMintDecimals :: "jsval \<Rightarrow> js_error + number" where
  "getMintDecimals v =
     (if \<not> truthy v then Inr (Finite 9)
      else if typeof v \<noteq> ''object'' then Inr (Finite 9)
      else and_then (in_op ''data'' v) (\<lambda>has_data.
        if \<not> has_data then Inr (Finite 9)
        else and_then (get_prop v ''data'') (\<lambda>data.
          if \<not> truthy data then Inr (Finite 9)
          else if typeof data \<noteq> ''object'' then Inr (Finite 9)
          else and_then (in_op ''parsed'' data) (\<lambda>has_parsed.
            if \<not> has_parsed then Inr (Finite 9)
            else and_then (get_prop data ''parsed'') decimals_or_default))))"

text \<open>
  The second version, which casts the value to \<open>AccountInfo<Buffer | ParsedAccountData> | null\<close>
  and reads \<open>v.data.parsed\<close> once \<open>typeof v.data\<close> is \<open>object\<close>.
\<close>

definition getMintDecimals_typed :: "jsval \<Rightarrow> js_error + number" where
  "getMintDecimals_typed v =
     (if \<not> truthy v then Inr (Finite 9)
      else and_then (get_prop v ''data'') (\<lambda>data.
        if typeof data \<noteq> ''object'' then Inr (Finite 9)
        else and_then (get_prop data ''parsed'') (\<lambda>parsed.
          if \<not> truthy parsed then Inr (Finite 9)
          else decimals_or_default parsed)))"

text \<open>
  The claim's words, to compare with: the numeric \<open>decimals\<close> field of the parsed info of
  the account data, where the value has one.
\<close>

definition field :: "jsval \<Rightarrow> string \<Rightarrow> jsval option" where
  "field v name = (case v of Object members \<Rightarrow> map_of members name | _ \<Rightarrow> None)"

definition numeric_decimals :: "jsval \<Rightarrow> number option" where
  "numeric_decimals v =
     (case field v ''data'' of
        Some data \<Rightarrow>
          (case field data ''parsed'' of
             Some parsed \<Rightarrow>
               (case field parsed ''info'' of
                  Some info \<Rightarrow>
                    (case field info ''decimals'' of Some (Number n) \<Rightarrow> Some n | _ \<Rightarrow> None)
                | None \<Rightarrow> None)
           | None \<Rightarrow> None)
      | None \<Rightarrow> None)"

subsection \<open>\<open>fetchQuoteWithRetry\<close>\<close>

text \<open>
  \<open>doFetch\<close> is given by what its invocations do, in order: invocation \<open>i\<close> throws a value
  or returns one. A thrown value is \<open>null\<close>, \<open>undefined\<close> or anything else, an error as a
  rule. \<open>tries\<close> and \<open>delayMs\<close> are numbers. The trace lists the invocations and the delays
  handed to \<open>setTimeout\<close>. The loop need not end (\<open>tries\<close> may be infinite), so that the
  result is \<open>None\<close> where it runs forever.
\<close>

datatype 'e thrown_value = ThrownNull | ThrownUndefined | ThrownError 'e













section \<open>The swap screen (page.tsx)\<close>

subsection \<open>Platform, configuration and effects\<close>

text \<open>
  What the libraries give: the rounding of doubles, \<open>parseFloat\<close>, \<open>String.prototype.trim\<close>,
  the constructor of \<open>PublicKey\<close> (\<open>None\<close> where it throws on an invalid address) and
  \<open>Number.prototype.toFixed\<close>.
\<close>

datatype pubkey = PublicKey string

record platform =
  pf_rnd :: "real \<Rightarrow> real"
  pf_parseFloat :: "string \<Rightarrow> number"
  pf_trim :: "string \<Rightarrow> string"
  pf_PublicKey :: "string \<Rightarrow> pubkey option"
  pf_toFixed :: "number \<Rightarrow> nat \<Rightarrow> string"

text \<open>The environment variables: the two mints and the optional WebSocket endpoint.\<close>

record config =
  SOL :: string
  TROLL :: string
  WS :: "string option"

text \<open>
  Modelled from the spec: the constant \<open>LAMPORTS_PER_SOL\<close> comes from the library
  \<open>@solana/web3.js\<close>, which is not part of the sources; its value is \<open>10^9\<close>, the
  divisor by which \<open>refreshBalances\<close> turns a balance in lamports into SOL.
\<close>

definition LAMPORTS_PER_SOL :: number where
  "LAMPORTS_PER_SOL = Finite 1000000000"

definition SOL_FEE_BUFFER :: "(real \<Rightarrow> real) \<Rightarrow> number" where
  "SOL_FEE_BUFFER rnd = to_number rnd (4 / 1000)"

record transfer =
  fromPubkey :: pubkey
  toPubkey :: pubkey
  lamports :: number
  recentBlockhash :: string
  feePayer :: pubkey

datatype transaction = TransferTx transfer | SwapTx string

datatype toast_kind = ToastSuccess | ToastError | ToastInfo

text \<open>
  What a handler does to the outside, in order: the toasts it pushes, the transactions it
  hands to the wallet, the fetches of the swap hook and the refreshes it asks for.
\<close>

datatype effect =
    PushToast toast_kind string "string option"
  | SendTransaction transaction
  | FetchQuote
  | FetchSwapTransaction jsval
  | RefreshQuote
  | RefreshBalances
  | SetLastTx string
  | SetShowModal bool
  | UnhandledRejection

subsection \<open>Withdrawing SOL\<close>

text \<open>
  The replies of the RPC node and of the wallet: the latest blockhash (\<open>None\<close> where the call
  throws), the reply to \<open>getFeeForMessage\<close> and the signature \<open>sendTransaction\<close> returns, once
  for the fee estimate and once for the withdrawal itself.
\<close>

record chain =
  fee_blockhash :: "string option"
  fee_reply :: "transfer \<Rightarrow> jsval option"
  send_blockhash :: "string option"
  send_reply :: "transfer \<Rightarrow> string option"

record withdraw_state =
  publicKey :: "pubkey option"
  wdTo :: string
  wdSol :: string
  wdFeeLamports :: "number option"
  solBalance :: number
  wdOpen :: bool
  wdEstimating :: bool
  wdSending :: bool

definition estimateSolTransferFee :: "chain \<Rightarrow> pubkey option \<Rightarrow> pubkey \<Rightarrow> number \<Rightarrow> number option" where
  "estimateSolTransferFee C pk toPk lam =
     (case pk of
        None \<Rightarrow> None
      | Some me \<Rightarrow>
          (case fee_blockhash C of
             None \<Rightarrow> None
           | Some blockhash \<Rightarrow>
               (case fee_reply C \<lparr>fromPubkey = me, toPubkey = toPk, lamports = lam,
                                  recentBlockhash = blockhash, feePayer = me\<rparr> of
                  None \<Rightarrow> None
                | Some fee \<Rightarrow>
                    if truthy fee
                    then (case get_prop fee ''value'' of Inr (Number n) \<Rightarrow> Some n | _ \<Rightarrow> None)
                    else None)))"

text \<open>\<open>Math.floor(Math.max(0, parseFloat(wdSol || '0')) * LAMPORTS_PER_SOL)\<close>\<close>

definition amount_lamports :: "platform \<Rightarrow> string \<Rightarrow> number" where
  "amount_lamports P sol =
     Math_floor (js_times (pf_rnd P)
       (Math_max (Finite 0) (pf_parseFloat P (if sol = [] then ''0'' else sol)))
       LAMPORTS_PER_SOL)"

definition refreshWithdrawFee :: "platform \<Rightarrow> chain \<Rightarrow> withdraw_state \<Rightarrow> withdraw_state" where
  "refreshWithdrawFee P C S =
     (let S1 = S\<lparr>wdFeeLamports := None\<rparr>
      in if publicKey S = None then S1
         else let lam = amount_lamports P (wdSol S)
              in if \<not> Number_isFinite lam \<or> js_less_eq lam (Finite 0) then S1
                 else (case pf_PublicKey P (pf_trim P (wdTo S)) of
                         None \<Rightarrow> S1
                       | Some pk \<Rightarrow>
                           S1\<lparr>wdFeeLamports := estimateSolTransferFee C (publicKey S) pk lam,
                              wdEstimating := False\<rparr>))"

text \<open>The fee used by the withdrawal: the one on the screen, or a fresh estimate.\<close>

definition withdraw_fee :: "chain \<Rightarrow> withdraw_state \<Rightarrow> pubkey \<Rightarrow> number \<Rightarrow> number option" where
  "withdraw_fee C S toPk amountLamports =
     (case wdFeeLamports S of
        None \<Rightarrow> estimateSolTransferFee C (publicKey S) toPk amountLamports
      | Some fee \<Rightarrow> Some fee)"

definition withdraw_need :: "platform \<Rightarrow> number \<Rightarrow> number \<Rightarrow> number" where
  "withdraw_need P amountLamports feeLamports =
     (let buffer = Math_ceil (js_times (pf_rnd P) (SOL_FEE_BUFFER (pf_rnd P)) LAMPORTS_PER_SOL)
      in js_plus (pf_rnd P) (js_plus (pf_rnd P) amountLamports feeLamports) buffer)"

definition withdraw_have :: "platform \<Rightarrow> withdraw_state \<Rightarrow> number" where
  "withdraw_have P S = Math_floor (js_times (pf_rnd P) (solBalance S) LAMPORTS_PER_SOL)"

definition approx_sign :: string where
  "approx_sign = [CHR 0xE2, CHR 0x89, CHR 0x88]"

definition sendWithdrawSol ::
  "platform \<Rightarrow> chain \<Rightarrow> withdraw_state \<Rightarrow> withdraw_state \<times> effect list" where
  "sendWithdrawSol P C S =
     (case publicKey S of
        None \<Rightarrow> (S, [PushToast ToastError ''Connect your wallet first.'' None])
      | Some me \<Rightarrow>
          (case pf_PublicKey P (pf_trim P (wdTo S)) of
             None \<Rightarrow> (S, [PushToast ToastError ''Invalid Solana address.'' None])
           | Some toPk \<Rightarrow>
               (let amountLamports = amount_lamports P (wdSol S)
                in if \<not> Number_isFinite amountLamports \<or> js_less_eq amountLamports (Finite 0)
                   then (S, [PushToast ToastError ''Enter a valid SOL amount.'' None])
                   else
                     (case withdraw_fee C S toPk amountLamports of
                        None \<Rightarrow>
                          (S, [PushToast ToastError ''Could not estimate network fee. Try again.'' None])
                      | Some feeLamports \<Rightarrow>
                          (let need = withdraw_need P amountLamports feeLamports;
                               have = withdraw_have P S
                           in if js_less have need
                              then (let needUi = pf_toFixed P
                                          (js_divide (pf_rnd P) need LAMPORTS_PER_SOL) 6
                                    in (S, [PushToast ToastError
                                              (''Not enough SOL to cover amount + fee. Need ''
                                                 @ approx_sign @ '' '' @ needUi @ '' SOL total.'')
                                              None]))
                              else
                                (case send_blockhash C of
                                   None \<Rightarrow>
                                     (S\<lparr>wdSending := False\<rparr>,
                                      [PushToast ToastError ''Withdraw failed. Please try again.'' None])
                                 | Some blockhash \<Rightarrow>
                                     (let tx = \<lparr>fromPubkey = me, toPubkey = toPk,
                                                lamports = amountLamports,
                                                recentBlockhash = blockhash, feePayer = me\<rparr>
                                      in case send_reply C tx of
                                           None \<Rightarrow>
                                             (S\<lparr>wdSending := False\<rparr>,
                                              [SendTransaction (TransferTx tx),
                                               PushToast ToastError
                                                 ''Withdraw failed. Please try again.'' None])
                                         | Some sig \<Rightarrow>
                                             (S\<lparr>wdOpen := False, wdTo := [], wdSol := ''0.1'',
                                                wdFeeLamports := None, wdSending := False\<rparr>,
                                              [SendTransaction (TransferTx tx),
                                               PushToast ToastSuccess
                                                 ''Withdrawal sent! View on Solscan.''
                                                 (Some (''https://solscan.io/tx/'' @ sig)),
                                               RefreshBalances]))))))))"

definition sends_transaction :: "effect list \<Rightarrow> bool" where
  "sends_transaction effs = list_ex (\<lambda>e. case e of SendTransaction tx \<Rightarrow> True | _ \<Rightarrow> False) effs"

subsection \<open>Swapping\<close>

text \<open>
  What the swap hook and the wallet answer. A failed quote fetch is given by what the
  \<open>catch\<close> block of \<open>tryFetchQuoteSafe\<close> reads from the error: the status of its response and
  the error code found in the response body, or else its message.
\<close>

datatype quote_error =
    ResponseError nat "string option"
  | MessageError string
  | OtherError

datatype swap_build = BuildError | BuildOk string | BuildThrows

record swap_hook =
  fetchQuote :: "quote_error + jsval"
  fetchSwapTransaction :: "jsval \<Rightarrow> swap_build"
  sendTransaction :: "string \<Rightarrow> string option"

record swap_state =
  sw_publicKey :: "pubkey option"
  amountStr :: string
  inMintStr :: string
  outMintStr :: string
  amountAtomic :: int
  quoteResponseMeta :: jsval

definition minUiForMint :: "(real \<Rightarrow> real) \<Rightarrow> config \<Rightarrow> string \<Rightarrow> number" where
  "minUiForMint rnd cfg mintStr = (if mintStr = SOL cfg then to_number rnd (1 / 1000) else Finite 1)"

definition bigIntIsZero :: "int \<Rightarrow> bool" where
  "bigIntIsZero x = (x = 0)"

function show_nat :: "nat \<Rightarrow> string" where
  "show_nat n =
     (if n < 10 then [''0123456789'' ! n]
      else show_nat (n div 10) @ [''0123456789'' ! (n mod 10)])"
  by pat_completeness auto
termination
  by (relation "measure (\<lambda>n. n)") auto

text \<open>
  \<open>tryFetchQuoteSafe\<close>: the quote or \<open>null\<close>, and the toast pushed by \<open>onError\<close> when the
  fetch has thrown.
\<close>

definition tryFetchQuoteSafe :: "(quote_error + jsval) \<Rightarrow> jsval \<times> effect list" where
  "tryFetchQuoteSafe reply =
     (case reply of
        Inr q \<Rightarrow> (if q = Undefined \<or> q = Null then Null else q, [])
      | Inl e \<Rightarrow>
          (let msg = (case e of
                        ResponseError st (Some code) \<Rightarrow> ''Quote failed ('' @ code @ '').''
                      | ResponseError st None \<Rightarrow> ''Quote failed (HTTP '' @ show_nat st @ '').''
                      | MessageError m \<Rightarrow> ''Quote failed: '' @ m
                      | OtherError \<Rightarrow> ''Quote failed.'');
               has_status = (case e of ResponseError st code \<Rightarrow> st \<noteq> 0 | _ \<Rightarrow> False)
           in (Null,
               [PushToast ToastError
                  (if has_status
                   then msg @ '' Try a slightly larger amount or different route.''
                   else msg @ '' Please check your internet and try again.'')
                  None])))"

definition ellipsis :: string where
  "ellipsis = [CHR 0xE2, CHR 0x80, CHR 0xA6]"

text \<open>What \<open>doSwap\<close> does once a quote is at hand.\<close>

definition swap_with_quote :: "swap_hook \<Rightarrow> jsval \<Rightarrow> effect list" where
  "swap_with_quote H quote =
     FetchSwapTransaction quote #
     (case fetchSwapTransaction H quote of
        BuildThrows \<Rightarrow> [UnhandledRejection]
      | BuildError \<Rightarrow>
          [PushToast ToastError ''Failed to build swap transaction. Try again.'' None]
      | BuildOk swapTransaction \<Rightarrow>
          SendTransaction (SwapTx swapTransaction) #
          (case sendTransaction H swapTransaction of
             None \<Rightarrow> [PushToast ToastError ''Swap failed to send.'' None]
           | Some txid \<Rightarrow>
               [SetLastTx txid, SetShowModal True,
                PushToast ToastSuccess ''Swap sent! Click to view on Solscan.''
                  (Some (''https://solscan.io/tx/'' @ txid)),
                RefreshQuote, RefreshBalances]))"

definition doSwap :: "platform \<Rightarrow> config \<Rightarrow> swap_hook \<Rightarrow> swap_state \<Rightarrow> effect list" where
  "doSwap P cfg H S =
     (if sw_publicKey S = None then [PushToast ToastError ''Connect your wallet first.'' None]
      else
        (let uiAmount = pf_parseFloat P (if amountStr S = [] then ''0'' else amountStr S)
         in if \<not> Number_isFinite uiAmount \<or> js_less_eq uiAmount (Finite 0)
            then [PushToast ToastError ''Enter an amount greater than 0.'' None]
            else if js_less uiAmount (minUiForMint (pf_rnd P) cfg (inMintStr S))
            then [PushToast ToastError
                    (if inMintStr S = SOL cfg then ''Amount too small. Try at least 0.001 SOL.''
                     else ''Amount too small. Try at least 1 .'') None]
            else if bigIntIsZero (amountAtomic S)
            then [PushToast ToastError
                    ''Amount resolves to 0 in base units. Increase it slightly.'' None]
            else if inMintStr S = outMintStr S
            then [PushToast ToastError ''Select two different tokens.'' None]
            else
              PushToast ToastInfo (''Building route'' @ ellipsis) None #
              (if quoteResponseMeta S = Undefined \<or> quoteResponseMeta S = Null
               then FetchQuote #
                    (case tryFetchQuoteSafe (fetchQuote H) of
                       (quote, toasts) \<Rightarrow>
                         toasts @ (if \<not> truthy quote then [] else swap_with_quote H quote))
               else (if \<not> truthy (quoteResponseMeta S) then []
                     else swap_with_quote H (quoteResponseMeta S)))))"

text \<open>A fetch of the swap hook or a transaction handed to the wallet.\<close>

fun is_fetch :: "effect \<Rightarrow> bool" where
  "is_fetch FetchQuote = True"
| "is_fetch (FetchSwapTransaction q) = True"
| "is_fetch (SendTransaction tx) = True"
| "is_fetch e = False"

text \<open>
  The token selection: the options of the two selectors, the state the screen starts in and
  what choosing an option or pressing the flip button does to it.
\<close>

definition from_options :: "config \<Rightarrow> string list" where
  "from_options cfg = [SOL cfg, TROLL cfg]"

definition to_options :: "config \<Rightarrow> string list" where
  "to_options cfg = [TROLL cfg, SOL cfg]"

datatype ui_action = SelectFrom string | SelectTo string | Flip

fun offered :: "config \<Rightarrow> ui_action \<Rightarrow> bool" where
  "offered cfg (SelectFrom v) = (v \<in> set (from_options cfg))"
| "offered cfg (SelectTo v) = (v \<in> set (to_options cfg))"
| "offered cfg Flip = True"

fun act :: "swap_state \<Rightarrow> ui_action \<Rightarrow> swap_state" where
  "act S (SelectFrom v) = S\<lparr>inMintStr := v\<rparr>"
| "act S (SelectTo v) = S\<lparr>outMintStr := v\<rparr>"
| "act S Flip = S\<lparr>inMintStr := outMintStr S, outMintStr := inMintStr S\<rparr>"

definition initially :: "config \<Rightarrow> swap_state \<Rightarrow> bool" where
  "initially cfg S \<longleftrightarrow> inMintStr S = SOL cfg \<and> outMintStr S = TROLL cfg"

subsection \<open>The account subscriptions and the fast poll\<close>

text \<open>
  The replies of the connection: the id of the subscription to the wallet's account and to
  the TROLL token account (\<open>None\<close> where \<open>onAccountChange\<close> throws), the token account
  \<open>refreshBalances\<close> leaves in \<open>trollAcctRef\<close>, and the handle \<open>setInterval\<close> returns. A handle
  is a positive number, hence truthy.
\<close>

datatype timer = Timer nat

record connection =
  sol_subscription :: "nat option"
  troll_account :: "pubkey option"
  troll_subscription :: "nat option"
  new_interval :: timer

text \<open>
  An attempt to subscribe is recorded with the id it has returned, or \<open>None\<close> where it has
  thrown.
\<close>

datatype ws_event =
    OnAccountChange pubkey "nat option"
  | RefreshBalancesCalled
  | SetInterval nat
  | RemoveAccountChangeListener nat
  | ClearInterval timer

text \<open>
  The asynchronous body of the effect is not awaited: it runs up to its next \<open>await\<close>, and
  the cleanup, which the effect returns at once, may be called between any two of these
  runs. A run of the effect is therefore a state: the variables \<open>solSubId\<close>, \<open>trollSubId\<close>
  and \<open>wsFailed\<close> the body and the cleanup share, the two refs, the \<open>await\<close> at which the
  body is suspended, the subscriptions and intervals of this effect that are alive on the
  connection and in the window, and the trace of the calls made so far.
\<close>

datatype body_point = AwaitSubscription nat | AwaitRefresh | AwaitTrollSubscription nat | Finished

record effect_run =
  solSubId :: "nat option"
  trollSubId :: "nat option"
  wsFailed :: bool
  fastPollRef :: "timer option"
  trollAcctRef :: "pubkey option"
  suspended :: body_point
  listeners :: "nat list"
  intervals :: "timer list"
  events :: "ws_event list"

definition ws_configured :: "config \<Rightarrow> bool" where
  "ws_configured cfg = (case WS cfg of None \<Rightarrow> False | Some url \<Rightarrow> url \<noteq> [])"

text \<open>The statement after the \<open>try\<close> block, with which the body ends.\<close>

definition start_poll_if_failed :: "connection \<Rightarrow> effect_run \<Rightarrow> effect_run" where
  "start_poll_if_failed conn s =
     (if wsFailed s \<and> fastPollRef s = None
      then s\<lparr>fastPollRef := Some (new_interval conn),
             intervals := intervals s @ [new_interval conn],
             events := events s @ [SetInterval 3000],
             suspended := Finished\<rparr>
      else s\<lparr>suspended := Finished\<rparr>)"

text \<open>
  The second half of the \<open>try\<close> block: the subscription to the token account, when one is
  known. A throw of \<open>onAccountChange\<close> is caught and sets \<open>wsFailed\<close>.
\<close>

definition subscribe_troll :: "connection \<Rightarrow> effect_run \<Rightarrow> effect_run" where
  "subscribe_troll conn s =
     (case trollAcctRef s of
        None \<Rightarrow> start_poll_if_failed conn s
      | Some acct \<Rightarrow>
          (case troll_subscription conn of
             None \<Rightarrow>
               start_poll_if_failed conn
                 (s\<lparr>wsFailed := True, events := events s @ [OnAccountChange acct None]\<rparr>)
           | Some troll_id \<Rightarrow>
               s\<lparr>listeners := listeners s @ [troll_id],
                 events := events s @ [OnAccountChange acct (Some troll_id)],
                 suspended := AwaitTrollSubscription troll_id\<rparr>))"

text \<open>
  The effect: nothing without an endpoint or a wallet (then it has no cleanup either);
  otherwise the body runs up to its first \<open>await\<close>, that is through the first call of
  \<open>onAccountChange\<close>.
\<close>

definition ws_effect ::
  "config \<Rightarrow> connection \<Rightarrow> pubkey option \<Rightarrow> timer option \<Rightarrow> pubkey option \<Rightarrow> effect_run option" where
  "ws_effect cfg conn pk poll acct =
     (case pk of
        None \<Rightarrow> None
      | Some me \<Rightarrow>
          if \<not> ws_configured cfg then None
          else
            (let s = \<lparr>solSubId = None, trollSubId = None, wsFailed = False,
                      fastPollRef = poll, trollAcctRef = acct, suspended = Finished,
                      listeners = [],
                      intervals = (case poll of None \<Rightarrow> [] | Some t \<Rightarrow> [t]),
                      events = []\<rparr>
             in case sol_subscription conn of
                  None \<Rightarrow>
                    Some (start_poll_if_failed conn
                            (s\<lparr>wsFailed := True, events := [OnAccountChange me None]\<rparr>))
                | Some sol_id \<Rightarrow>
                    Some (s\<lparr>listeners := [sol_id],
                            events := [OnAccountChange me (Some sol_id)],
                            suspended := AwaitSubscription sol_id\<rparr>)))"

text \<open>The body goes on from the \<open>await\<close> it is suspended at, up to the next one.\<close>

definition resume :: "connection \<Rightarrow> effect_run \<Rightarrow> effect_run" where
  "resume conn s =
     (case suspended s of
        AwaitSubscription sol_id \<Rightarrow>
          (let s1 = s\<lparr>solSubId := Some sol_id\<rparr>
           in if trollAcctRef s1 = None
              then s1\<lparr>events := events s1 @ [RefreshBalancesCalled], suspended := AwaitRefresh\<rparr>
              else subscribe_troll conn s1)
      | AwaitRefresh \<Rightarrow> subscribe_troll conn (s\<lparr>trollAcctRef := troll_account conn\<rparr>)
      | AwaitTrollSubscription troll_id \<Rightarrow>
          start_poll_if_failed conn (s\<lparr>trollSubId := Some troll_id\<rparr>)
      | Finished \<Rightarrow> s)"

text \<open>The cleanup, on the variables and refs as they are when it is called.\<close>

definition cleanup :: "effect_run \<Rightarrow> effect_run" where
  "cleanup s =
     (let s1 = (case solSubId s of
                  None \<Rightarrow> s
                | Some i \<Rightarrow> s\<lparr>listeners := removeAll i (listeners s),
                              events := events s @ [RemoveAccountChangeListener i]\<rparr>);
          s2 = (case trollSubId s1 of
                  None \<Rightarrow> s1
                | Some i \<Rightarrow> s1\<lparr>listeners := removeAll i (listeners s1),
                               events := events s1 @ [RemoveAccountChangeListener i]\<rparr>)
      in case fastPollRef s2 of
           None \<Rightarrow> s2
         | Some t \<Rightarrow> s2\<lparr>intervals := removeAll t (intervals s2),
                        events := events s2 @ [ClearInterval t],
                        fastPollRef := None\<rparr>)"

text \<open>What happens to a run, in some order: the body goes on, or React calls the cleanup.\<close>

datatype turn = Resume | Cleanup

fun take_turn :: "connection \<Rightarrow> effect_run \<Rightarrow> turn \<Rightarrow> effect_run" where
  "take_turn conn s Resume = resume conn s"
| "take_turn conn s Cleanup = cleanup s"

definition installs_poll :: "ws_event list \<Rightarrow> bool" where
  "installs_poll trace = list_ex (\<lambda>ev. case ev of SetInterval ms \<Rightarrow> True | _ \<Rightarrow> False) trace"

definition attempt_threw :: "ws_event list \<Rightarrow> bool" where
  "attempt_threw trace =
     list_ex (\<lambda>ev. case ev of OnAccountChange a None \<Rightarrow> True | _ \<Rightarrow> False) trace"

text \<open>
  Three properties of a run, for the proofs below. In the first, a poll has been started
  or \<open>wsFailed\<close> set only after an attempt to subscribe has thrown.
\<close>

definition poll_follows_throw :: "effect_run \<Rightarrow> bool" where
  "poll_follows_throw s \<longleftrightarrow>
     (if installs_poll (events s) \<or> wsFailed s then attempt_threw (events s) else True)"

text \<open>In the second, nothing has failed and no poll has been started.\<close>

definition untroubled :: "effect_run \<Rightarrow> bool" where
  "untroubled s \<longleftrightarrow> \<not> wsFailed s \<and> \<not> installs_poll (events s)"

text \<open>
  In the third, which holds as long as the cleanup has not been called, the subscriptions
  alive are those whose id the variables hold or the body is about to store, and the
  interval alive is the one in \<open>fastPollRef\<close>.
\<close>

definition pending_id :: "effect_run \<Rightarrow> nat set" where
  "pending_id s =
     (case suspended s of
        AwaitSubscription i \<Rightarrow> {i}
      | AwaitTrollSubscription i \<Rightarrow> {i}
      | _ \<Rightarrow> {})"

definition accounted :: "effect_run \<Rightarrow> bool" where
  "accounted s \<longleftrightarrow>
     set (listeners s) = set_option (solSubId s) \<union> set_option (trollSubId s) \<union> pending_id s
     \<and> set (intervals s) = set_option (fastPollRef s)
     \<and> (case suspended s of
          AwaitSubscription i \<Rightarrow> solSubId s = None \<and> trollSubId s = None
        | AwaitRefresh \<Rightarrow> trollSubId s = None
        | AwaitTrollSubscription i \<Rightarrow> trollSubId s = None
        | Finished \<Rightarrow> True)"

text \<open>The number of \<open>await\<close>s the body has before it.\<close>

fun remaining :: "body_point \<Rightarrow> nat" where
  "remaining (AwaitSubscription i) = 3"
| "remaining AwaitRefresh = 2"
| "remaining (AwaitTrollSubscription i) = 1"
| "remaining Finished = 0"

subsection \<open>Sample inputs\<close>

text \<open>A platform that parses a few strings and rounds nothing, and a node that answers.\<close>

definition sample_parseFloat :: "string \<Rightarrow> number" where
  "sample_parseFloat s =
     (if s = ''0.1'' then Finite (1 / 10)
      else if s = ''0'' then Finite 0
      else if s = ''-2'' then Finite (- 2)
      else if s = ''Infinity'' then PosInfinity
      else NaN)"

definition sample_PublicKey :: "string \<Rightarrow> pubkey option" where
  "sample_PublicKey s = (if length s = 4 then Some (PublicKey s) else None)"

definition sample_platform :: platform where
  "sample_platform =
     \<lparr>pf_rnd = (\<lambda>r. r), pf_parseFloat = sample_parseFloat, pf_trim = (\<lambda>s. s),
      pf_PublicKey = sample_PublicKey, pf_toFixed = (\<lambda>n d. ''0.104005'')\<rparr>"

definition sample_chain :: chain where
  "sample_chain =
     \<lparr>fee_blockhash = Some ''bh1'',
      fee_reply = (\<lambda>t. Some (Object [(''context'', Object []), (''value'', Number (Finite 5000))])),
      send_blockhash = Some ''bh2'',
      send_reply = (\<lambda>t. Some ''sig1'')\<rparr>"

definition sample_withdraw :: withdraw_state where
  "sample_withdraw =
     \<lparr>publicKey = Some (PublicKey ''me00''), wdTo = ''you0'', wdSol = ''0.1'',
      wdFeeLamports = None, solBalance = Finite (1 / 2), wdOpen = True,
      wdEstimating = False, wdSending = False\<rparr>"

text \<open>The same withdrawal from a balance of 0.1 SOL, and one of a negative amount.\<close>

definition poor_withdraw :: withdraw_state where
  "poor_withdraw = sample_withdraw\<lparr>solBalance := Finite (1 / 10)\<rparr>"

definition negative_withdraw :: withdraw_state where
  "negative_withdraw = sample_withdraw\<lparr>wdSol := ''-2''\<rparr>"





text \<open>A configuration, a swap hook that answers and the state the screen starts in.\<close>

definition sample_config :: config where
  "sample_config = \<lparr>SOL = ''So11'', TROLL = ''Tr0l'', WS = Some ''wss://rpc''\<rparr>"

definition sample_hook :: swap_hook where
  "sample_hook =
     \<lparr>fetchQuote = Inr (Object [(''outAmount'', String ''42'')]),
      fetchSwapTransaction = (\<lambda>q. BuildOk ''tx1''),
      sendTransaction = (\<lambda>t. Some ''sig2'')\<rparr>"

definition sample_swap :: swap_state where
  "sample_swap =
     \<lparr>sw_publicKey = Some (PublicKey ''me00''), amountStr = ''0.1'', inMintStr = ''So11'',
      outMintStr = ''Tr0l'', amountAtomic = 100000000, quoteResponseMeta = Undefined\<rparr>"

text \<open>
  A connection on which the subscription to the token account throws, and one on which
  both subscriptions succeed.
\<close>

definition failing_connection :: connection where
  "failing_connection =
     \<lparr>sol_subscription = Some 1, troll_account = Some (PublicKey ''acct''),
      troll_subscription = None, new_interval = Timer 7\<rparr>"

definition working_connection :: connection where
  "working_connection =
     \<lparr>sol_subscription = Some 1, troll_account = Some (PublicKey ''acct''),
      troll_subscription = Some 2, new_interval = Timer 7\<rparr>"

text \<open>The run of the effect after its first call of \<open>onAccountChange\<close> has returned 1.\<close>

definition working_start :: effect_run where
  "working_start =
     \<lparr>solSubId = None, trollSubId = None, wsFailed = False, fastPollRef = None,
      trollAcctRef = None, suspended = AwaitSubscription 1, listeners = [1], intervals = [],
      events = [OnAccountChange (PublicKey ''me00'') (Some 1)]\<rparr>"

text \<open>An account-info value with six decimals.\<close>

definition sample_mint :: jsval where
  "sample_mint =
     Object [(''data'',
       Object [(''program'', String ''spl-token''),
               (''parsed'', Object [(''info'', Object [(''decimals'', Number (Finite 6))]),
                                    (''type'', String ''mint'')])]),
             (''lamports'', Number (Finite 1461600))]"

section \<open>Properties of the proxy\<close>

lemma hget_hset: "hget k' (hset k v h) = (if lower k' = lower k then Some v else hget k' h)"
  by (simp add: hget_def hset_def update_conv')

lemma hget_hdelete: "hget k' (hdelete k h) = (if lower k' = lower k then None else hget k' h)"
  by (simp add: hget_def hdelete_def delete_conv')

lemma hget_Nil: "hget k [] = None"
  by (simp add: hget_def)

lemma lower_names:
  "lower ''Access-Control-Allow-Origin'' = ''access-control-allow-origin''"
  "lower ''Access-Control-Allow-Methods'' = ''access-control-allow-methods''"
  "lower ''Access-Control-Allow-Headers'' = ''access-control-allow-headers''"
  "lower ''Access-Control-Max-Age'' = ''access-control-max-age''"
  "lower ''content-encoding'' = ''content-encoding''"
  "lower ''content-length'' = ''content-length''"
  "lower ''Content-Type'' = ''content-type''"
  "lower ''content-type'' = ''content-type''"
  "lower ''accept'' = ''accept''"
  "lower ''authorization'' = ''authorization''"
  by code_simp+

lemma applyCors_unfold:
  "applyCors h =
     hset ''Access-Control-Max-Age'' ''86400''
      (hset ''Access-Control-Allow-Headers'' ''Content-Type, Authorization, X-Requested-With''
        (hset ''Access-Control-Allow-Methods'' ''GET,POST,OPTIONS''
          (hset ''Access-Control-Allow-Origin'' ''*'' h)))"
  by (simp add: applyCors_def CORS_HEADERS_def)

lemma hget_applyCors:
  "hget ''Access-Control-Allow-Origin'' (applyCors h) = Some ''*''"
  "hget ''Access-Control-Allow-Methods'' (applyCors h) = Some ''GET,POST,OPTIONS''"
  "hget ''Access-Control-Allow-Headers'' (applyCors h) = Some ''Content-Type, Authorization, X-Requested-With''"
  "hget ''Access-Control-Max-Age'' (applyCors h) = Some ''86400''"
  by (simp_all add: applyCors_unfold hget_hset lower_names)


lemma null_body_status_below_400: "null_body_status st \<Longrightarrow> st < 400"
  by (auto simp: null_body_status_def)




lemma proxy_buffered_null_body_status:
  "fetch (upstream_call env request) = Resolves up \<Longrightarrow> null_body_status (up_status up) \<Longrightarrow>
   proxy_buffered env fetch request
     = proxy_failed (ErrorInstance (null_body_message env (up_status up)))"
  using null_body_status_below_400 [of "up_status up"]
  by (simp add: proxy_buffered_def Let_def new_Response_def)




lemma carries_cors_applyCors: "resp_headers r = applyCors h \<Longrightarrow> carries_cors r"
  by (simp add: carries_cors_def hget_applyCors)

lemma carries_cors_stripped:
  "resp_headers r = hdelete ''content-length'' (hdelete ''content-encoding'' (applyCors h))
   \<Longrightarrow> carries_cors r"
  by (simp add: carries_cors_def hget_hdelete hget_applyCors lower_names)

lemma proxy_failed_carries_cors: "carries_cors (proxy_failed error)"
  by (simp add: proxy_failed_def Let_def carries_cors_applyCors)

lemma new_Response_carries_cors:
  "carries_cors (case new_Response env body st text (applyCors h) of
                   Inr response \<Rightarrow> response
                 | Inl error \<Rightarrow> proxy_failed error)"
  "carries_cors (case new_Response env body st text
                        (hdelete ''content-length'' (hdelete ''content-encoding'' (applyCors h))) of
                   Inr response \<Rightarrow> response
                 | Inl error \<Rightarrow> proxy_failed error)"
  by (simp_all add: new_Response_def proxy_failed_carries_cors carries_cors_applyCors
        carries_cors_stripped)

lemma proxy_carries_cors: "carries_cors (proxy env fetch request)"
  by (cases "fetch (upstream_call env request)")
    (simp_all add: proxy_def Let_def proxy_failed_carries_cors new_Response_carries_cors)

lemma proxy_buffered_carries_cors: "carries_cors (proxy_buffered env fetch request)"
  by (cases "fetch (upstream_call env request)")
    (simp_all add: proxy_buffered_def Let_def proxy_failed_carries_cors new_Response_carries_cors)

text \<open>
  C1. Whatever the request and whatever the upstream call does (it resolves with any status
  or it throws), the response of the GET and POST handlers carries the four CORS headers with
  their configured values, and so does the response of the OPTIONS handler.
\<close>

theorem route_responses_carry_cors:
  "carries_cors (GET env fetch request) \<and> carries_cors (POST env fetch request)
   \<and> carries_cors OPTIONS"
  by (simp add: GET_def POST_def OPTIONS_def proxy_carries_cors carries_cors_applyCors)






text \<open>
  C9. Two requests with the same method, path segments, query parameters, body text and the
  same values for content-type, accept and authorization lead to the same upstream call,
  whatever their other headers; and a request without an accept header is sent upstream
  with \<open>accept: application/json\<close>.
\<close>

theorem upstream_call_whitelist:
  "(req_method r1 = req_method r2 \<and> req_path r1 = req_path r2
      \<and> req_searchParams r1 = req_searchParams r2 \<and> req_text r1 = req_text r2
      \<and> hget ''content-type'' (req_headers r1) = hget ''content-type'' (req_headers r2)
      \<and> hget ''accept'' (req_headers r1) = hget ''accept'' (req_headers r2)
      \<and> hget ''authorization'' (req_headers r1) = hget ''authorization'' (req_headers r2)
     \<longrightarrow> upstream_call env r1 = upstream_call env r2)
   \<and> (hget ''accept'' (req_headers r) = None
     \<longrightarrow> hget ''accept'' (call_headers (upstream_call env r)) = Some ''application/json'')"
proof (intro conjI impI)
  assume a: "req_method r1 = req_method r2 \<and> req_path r1 = req_path r2
      \<and> req_searchParams r1 = req_searchParams r2 \<and> req_text r1 = req_text r2
      \<and> hget ''content-type'' (req_headers r1) = hget ''content-type'' (req_headers r2)
      \<and> hget ''accept'' (req_headers r1) = hget ''accept'' (req_headers r2)
      \<and> hget ''authorization'' (req_headers r1) = hget ''authorization'' (req_headers r2)"
  then have "upstream_headers r1 = upstream_headers r2"
    by (simp add: upstream_headers_def forwardHeaders_def forward_one_def)
  moreover from a have "targetUrl env r1 = targetUrl env r2"
    by (simp add: targetUrl_def)
  moreover from a have "upstream_body r1 = upstream_body r2"
    by (simp add: upstream_body_def)
  ultimately show "upstream_call env r1 = upstream_call env r2"
    using a by (simp add: upstream_call_def)
next
  assume "hget ''accept'' (req_headers r) = None"
  then show "hget ''accept'' (call_headers (upstream_call env r)) = Some ''application/json''"
    by (simp add: upstream_call_def upstream_headers_def forwardHeaders_def forward_one_def
         hhas_def hget_hset hget_Nil Let_def lower_names split: option.splits)
qed

theorem upstream_call_whitelist_witness:
  "req_headers example_request \<noteq> req_headers example_request_2
   \<and> upstream_call sample_environment example_request = upstream_call sample_environment example_request_2
   \<and> hget ''accept'' (call_headers (upstream_call sample_environment example_request)) = Some ''application/json''"
proof -
  have differ: "req_headers example_request \<noteq> req_headers example_request_2"
    by code_simp
  have same: "req_method example_request = req_method example_request_2
      \<and> req_path example_request = req_path example_request_2
      \<and> req_searchParams example_request = req_searchParams example_request_2
      \<and> req_text example_request = req_text example_request_2
      \<and> hget ''content-type'' (req_headers example_request) = hget ''content-type'' (req_headers example_request_2)
      \<and> hget ''accept'' (req_headers example_request) = hget ''accept'' (req_headers example_request_2)
      \<and> hget ''authorization'' (req_headers example_request) = hget ''authorization'' (req_headers example_request_2)"
    by code_simp
  have no_accept: "hget ''accept'' (req_headers example_request) = None"
    by code_simp
  from upstream_call_whitelist [of example_request example_request_2 sample_environment example_request]
    differ same no_accept
  show ?thesis by blast
qed

section \<open>Properties of the client\<close>

subsection \<open>\<open>getMintDecimals\<close>\<close>

lemma opt_chain_field:
  "opt_chain v name = Inr (case field v name of Some x \<Rightarrow> x | None \<Rightarrow> Undefined)"
  by (cases v) (simp_all add: opt_chain_def field_def split: option.splits)

lemma field_Undefined [simp]: "field Undefined name = None"
  by (simp add: field_def)

lemma decimals_or_default_eq:
  "decimals_or_default parsed =
     Inr (case field parsed ''info'' of
            Some info \<Rightarrow> (case field info ''decimals'' of Some (Number n) \<Rightarrow> n | _ \<Rightarrow> Finite 9)
          | None \<Rightarrow> Finite 9)"
  by (simp add: decimals_or_default_def and_then_def opt_chain_field
        split: option.splits jsval.splits)

lemma numeric_decimals_Object:
  "numeric_decimals (Object members) =
     (case map_of members ''data'' of
        Some (Object dmembers) \<Rightarrow>
          (case map_of dmembers ''parsed'' of
             Some parsed \<Rightarrow>
               (case field parsed ''info'' of
                  Some info \<Rightarrow>
                    (case field info ''decimals'' of Some (Number n) \<Rightarrow> Some n | _ \<Rightarrow> None)
                | None \<Rightarrow> None)
           | None \<Rightarrow> None)
      | _ \<Rightarrow> None)"
  by (simp add: numeric_decimals_def field_def split: option.splits jsval.splits)

lemma numeric_decimals_other:
  "\<forall>members. v \<noteq> Object members \<Longrightarrow> numeric_decimals v = None"
  by (cases v) (simp_all add: numeric_decimals_def field_def)

lemma getMintDecimals_eq:
  "getMintDecimals v = Inr (case numeric_decimals v of Some n \<Rightarrow> n | None \<Rightarrow> Finite 9)"
proof (cases v)
  case (Object members)
  show ?thesis
  proof (cases "map_of members ''data''")
    case None
    with Object show ?thesis
      by (simp add: getMintDecimals_def and_then_def numeric_decimals_Object)
  next
    case (Some data)
    show ?thesis
    proof (cases data)
      case (Object dmembers)
      show ?thesis
      proof (cases "map_of dmembers ''parsed''")
        case None
        with Object Some \<open>v = Object members\<close> show ?thesis
          by (simp add: getMintDecimals_def and_then_def numeric_decimals_Object)
      next
        case (Some parsed)
        with Object \<open>map_of members ''data'' = Some data\<close> \<open>v = Object members\<close> show ?thesis
          by (auto simp: getMintDecimals_def and_then_def numeric_decimals_Object
                decimals_or_default_eq split: option.splits jsval.splits)
      qed
    qed (use Some \<open>v = Object members\<close> in
          \<open>simp_all add: getMintDecimals_def and_then_def numeric_decimals_Object\<close>)
  qed
qed (simp_all add: getMintDecimals_def and_then_def numeric_decimals_other)

lemma falsy_no_field: "\<not> truthy parsed \<Longrightarrow> field parsed name = None"
  by (cases parsed) (simp_all add: field_def)

lemma getMintDecimals_typed_eq:
  assumes "get_prop v ''data'' \<noteq> Inr Null"
  shows "getMintDecimals_typed v = Inr (case numeric_decimals v of Some n \<Rightarrow> n | None \<Rightarrow> Finite 9)"
proof (cases v)
  case (Object members)
  show ?thesis
  proof (cases "map_of members ''data''")
    case None
    with Object show ?thesis
      by (simp add: getMintDecimals_typed_def and_then_def numeric_decimals_Object)
  next
    case (Some data)
    with Object assms have nn: "data \<noteq> Null" by auto
    show ?thesis
    proof (cases data)
      case (Object dmembers)
      show ?thesis
      proof (cases "map_of dmembers ''parsed''")
        case None
        with Object Some \<open>v = Object members\<close> show ?thesis
          by (simp add: getMintDecimals_typed_def and_then_def numeric_decimals_Object)
      next
        case (Some parsed)
        with Object \<open>map_of members ''data'' = Some data\<close> \<open>v = Object members\<close> show ?thesis
          by (auto simp: getMintDecimals_typed_def and_then_def numeric_decimals_Object
                decimals_or_default_eq falsy_no_field split: option.splits jsval.splits)
      qed
    qed (use nn Some \<open>v = Object members\<close> in
          \<open>simp_all add: getMintDecimals_typed_def and_then_def numeric_decimals_Object\<close>)
  qed
qed (simp_all add: getMintDecimals_typed_def and_then_def numeric_decimals_other)

text \<open>
  C10. The first version of \<open>getMintDecimals\<close> throws on no value: it returns the numeric
  \<open>decimals\<close> field of the parsed info of the account data when the value has one, and 9
  otherwise (when the value is \<open>null\<close>, the data is no object with a \<open>parsed\<close> member, or the
  parsed info has no numeric \<open>decimals\<close>). The second version returns the same for every
  value of its declared type, in which \<open>data\<close> is not \<open>null\<close>.
\<close>

theorem getMintDecimals_total:
  "getMintDecimals v = Inr (case numeric_decimals v of Some n \<Rightarrow> n | None \<Rightarrow> Finite 9)
   \<and> (get_prop v ''data'' \<noteq> Inr Null \<longrightarrow>
        getMintDecimals_typed v
          = Inr (case numeric_decimals v of Some n \<Rightarrow> n | None \<Rightarrow> Finite 9))"
  by (simp add: getMintDecimals_eq getMintDecimals_typed_eq)

theorem getMintDecimals_total_witness:
  "getMintDecimals sample_mint = Inr (Finite 6)
   \<and> get_prop sample_mint ''data'' \<noteq> Inr Null
   \<and> getMintDecimals_typed sample_mint = Inr (Finite 6)
   \<and> getMintDecimals Null = Inr (Finite 9)
   \<and> getMintDecimals_typed Null = Inr (Finite 9)"
proof -
  have d: "numeric_decimals sample_mint = Some (Finite 6)" "numeric_decimals Null = None"
    by (simp_all add: numeric_decimals_def field_def sample_mint_def)
  have h: "get_prop sample_mint ''data'' \<noteq> Inr Null" "get_prop Null ''data'' \<noteq> Inr Null"
    by (simp_all add: sample_mint_def)
  from getMintDecimals_total [of sample_mint] getMintDecimals_total [of Null] d h
  show ?thesis by simp
qed

subsection \<open>\<open>fetchQuoteWithRetry\<close>\<close>














subsection \<open>Withdrawing\<close>

lemma positive_iff: "Number_isFinite x \<Longrightarrow> js_less_eq x (Finite 0) \<longleftrightarrow> \<not> js_less (Finite 0) x"
  by (cases x) simp_all


lemma sends_transaction_simps:
  "sends_transaction [] \<longleftrightarrow> False"
  "sends_transaction (SendTransaction tx # effs) \<longleftrightarrow> True"
  "sends_transaction (PushToast k m h # effs) \<longleftrightarrow> sends_transaction effs"
  "sends_transaction (RefreshBalances # effs) \<longleftrightarrow> sends_transaction effs"
  by (simp_all add: sends_transaction_def)

lemma sends_transaction_member: "SendTransaction tx \<in> set effs \<Longrightarrow> sends_transaction effs"
  unfolding sends_transaction_def list_ex_iff
  by (rule bexI [of _ "SendTransaction tx"]) simp_all

lemma sendWithdrawSol_no_wallet:
  "publicKey S = None \<Longrightarrow>
   sendWithdrawSol P C S = (S, [PushToast ToastError ''Connect your wallet first.'' None])"
  by (simp add: sendWithdrawSol_def)

lemma sendWithdrawSol_bad_address:
  "publicKey S \<noteq> None \<Longrightarrow> pf_PublicKey P (pf_trim P (wdTo S)) = None \<Longrightarrow>
   sendWithdrawSol P C S = (S, [PushToast ToastError ''Invalid Solana address.'' None])"
  by (auto simp: sendWithdrawSol_def)

lemma sendWithdrawSol_bad_amount:
  "publicKey S \<noteq> None \<Longrightarrow> pf_PublicKey P (pf_trim P (wdTo S)) \<noteq> None \<Longrightarrow>
   \<not> (Number_isFinite (amount_lamports P (wdSol S)) \<and> js_less (Finite 0) (amount_lamports P (wdSol S))) \<Longrightarrow>
   sendWithdrawSol P C S = (S, [PushToast ToastError ''Enter a valid SOL amount.'' None])"
  by (auto simp: sendWithdrawSol_def Let_def positive_iff)

lemma sendWithdrawSol_no_fee:
  "publicKey S \<noteq> None \<Longrightarrow> pf_PublicKey P (pf_trim P (wdTo S)) = Some toPk \<Longrightarrow>
   Number_isFinite (amount_lamports P (wdSol S)) \<Longrightarrow> js_less (Finite 0) (amount_lamports P (wdSol S)) \<Longrightarrow>
   withdraw_fee C S toPk (amount_lamports P (wdSol S)) = None \<Longrightarrow>
   sendWithdrawSol P C S =
     (S, [PushToast ToastError ''Could not estimate network fee. Try again.'' None])"
  by (auto simp: sendWithdrawSol_def Let_def positive_iff)

lemma sendWithdrawSol_not_enough:
  "publicKey S \<noteq> None \<Longrightarrow> pf_PublicKey P (pf_trim P (wdTo S)) = Some toPk \<Longrightarrow>
   Number_isFinite (amount_lamports P (wdSol S)) \<Longrightarrow> js_less (Finite 0) (amount_lamports P (wdSol S)) \<Longrightarrow>
   withdraw_fee C S toPk (amount_lamports P (wdSol S)) = Some fee \<Longrightarrow>
   js_less (withdraw_have P S) (withdraw_need P (amount_lamports P (wdSol S)) fee) \<Longrightarrow>
   \<exists>msg. sendWithdrawSol P C S = (S, [PushToast ToastError msg None])"
  by (auto simp: sendWithdrawSol_def Let_def positive_iff)

lemma sendWithdrawSol_sends:
  "sends_transaction (snd (sendWithdrawSol P C S)) \<Longrightarrow>
   \<exists>me toPk fee. publicKey S = Some me \<and> pf_PublicKey P (pf_trim P (wdTo S)) = Some toPk
     \<and> Number_isFinite (amount_lamports P (wdSol S))
     \<and> js_less (Finite 0) (amount_lamports P (wdSol S))
     \<and> withdraw_fee C S toPk (amount_lamports P (wdSol S)) = Some fee
     \<and> \<not> js_less (withdraw_have P S) (withdraw_need P (amount_lamports P (wdSol S)) fee)"
  by (auto simp: sendWithdrawSol_def Let_def positive_iff sends_transaction_simps
        split: option.splits if_splits)

lemma rejected_cases:
  assumes "publicKey S = None
     \<or> pf_PublicKey P (pf_trim P (wdTo S)) = None
     \<or> \<not> (Number_isFinite (amount_lamports P (wdSol S)) \<and> js_less (Finite 0) (amount_lamports P (wdSol S)))
     \<or> (\<exists>toPk. pf_PublicKey P (pf_trim P (wdTo S)) = Some toPk
           \<and> withdraw_fee C S toPk (amount_lamports P (wdSol S)) = None)
     \<or> (\<exists>toPk fee. pf_PublicKey P (pf_trim P (wdTo S)) = Some toPk
           \<and> withdraw_fee C S toPk (amount_lamports P (wdSol S)) = Some fee
           \<and> js_less (withdraw_have P S) (withdraw_need P (amount_lamports P (wdSol S)) fee))"
  shows "\<exists>msg. sendWithdrawSol P C S = (S, [PushToast ToastError msg None])"
proof (cases "publicKey S = None")
  case True
  then show ?thesis by (simp add: sendWithdrawSol_no_wallet)
next
  case wallet: False
  show ?thesis
  proof (cases "pf_PublicKey P (pf_trim P (wdTo S))")
    case None
    with wallet show ?thesis by (simp add: sendWithdrawSol_bad_address)
  next
    case (Some toPk)
    show ?thesis
    proof (cases "Number_isFinite (amount_lamports P (wdSol S)) \<and> js_less (Finite 0) (amount_lamports P (wdSol S))")
      case False
      with wallet Some show ?thesis by (simp add: sendWithdrawSol_bad_amount)
    next
      case True
      show ?thesis
      proof (cases "withdraw_fee C S toPk (amount_lamports P (wdSol S))")
        case None
        with wallet Some True show ?thesis by (simp add: sendWithdrawSol_no_fee)
      next
        case fee: (Some fee)
        with assms wallet Some True
        have "js_less (withdraw_have P S) (withdraw_need P (amount_lamports P (wdSol S)) fee)"
          by auto
        with wallet Some True fee show ?thesis
          by (simp add: sendWithdrawSol_not_enough)
      qed
    qed
  qed
qed


lemma sample_amount: "amount_lamports sample_platform ''0.1'' = Finite 100000000"
  by (simp add: amount_lamports_def sample_platform_def sample_parseFloat_def Math_max_def
        LAMPORTS_PER_SOL_def to_number_def MAX_VALUE_def)

lemma negative_amount: "amount_lamports sample_platform ''-2'' = Finite 0"
  by (simp add: amount_lamports_def sample_platform_def sample_parseFloat_def Math_max_def
        LAMPORTS_PER_SOL_def to_number_def MAX_VALUE_def)

lemma sample_need: "withdraw_need sample_platform (Finite 100000000) (Finite 5000) = Finite 104005000"
  by (simp add: withdraw_need_def sample_platform_def SOL_FEE_BUFFER_def LAMPORTS_PER_SOL_def
        to_number_def MAX_VALUE_def Let_def)

lemma sample_fee:
  "withdraw_fee sample_chain sample_withdraw (PublicKey ''you0'') (Finite 100000000) = Some (Finite 5000)"
  "withdraw_fee sample_chain poor_withdraw (PublicKey ''you0'') (Finite 100000000) = Some (Finite 5000)"
  by (simp_all add: withdraw_fee_def estimateSolTransferFee_def sample_chain_def
        sample_withdraw_def poor_withdraw_def)

lemma sample_have:
  "withdraw_have sample_platform sample_withdraw = Finite 500000000"
  "withdraw_have sample_platform poor_withdraw = Finite 100000000"
  by (simp_all add: withdraw_have_def sample_platform_def sample_withdraw_def poor_withdraw_def
        LAMPORTS_PER_SOL_def to_number_def MAX_VALUE_def)

lemma sample_destination:
  "pf_PublicKey sample_platform (pf_trim sample_platform ''you0'') = Some (PublicKey ''you0'')"
  by (simp add: sample_platform_def sample_PublicKey_def)

lemma sample_sends:
  "snd (sendWithdrawSol sample_platform sample_chain sample_withdraw)
     = [SendTransaction (TransferTx
          \<lparr>fromPubkey = PublicKey ''me00'', toPubkey = PublicKey ''you0'',
           lamports = Finite 100000000, recentBlockhash = ''bh2'',
           feePayer = PublicKey ''me00''\<rparr>),
        PushToast ToastSuccess ''Withdrawal sent! View on Solscan.''
          (Some ''https://solscan.io/tx/sig1''),
        RefreshBalances]"
proof -
  have s: "publicKey sample_withdraw = Some (PublicKey ''me00'')" "wdTo sample_withdraw = ''you0''"
    "wdSol sample_withdraw = ''0.1''"
    by (simp_all add: sample_withdraw_def)
  have c: "send_blockhash sample_chain = Some ''bh2''" "\<And>t. send_reply sample_chain t = Some ''sig1''"
    by (simp_all add: sample_chain_def)
  show ?thesis
    by (simp add: sendWithdrawSol_def s c sample_destination sample_amount sample_fee sample_need
          sample_have Let_def)
qed


lemma amount_lamports_NaN:
  "pf_parseFloat P (if sol = [] then ''0'' else sol) = NaN \<Longrightarrow> amount_lamports P sol = NaN"
  by (simp add: amount_lamports_def Math_max_def)

lemma amount_lamports_Infinity:
  "pf_parseFloat P (if sol = [] then ''0'' else sol) = PosInfinity \<Longrightarrow>
   amount_lamports P sol = PosInfinity"
  by (simp add: amount_lamports_def Math_max_def LAMPORTS_PER_SOL_def of_sign_def)

lemma refreshWithdrawFee_bad_amount:
  "\<not> (Number_isFinite (amount_lamports P (wdSol S)) \<and> js_less (Finite 0) (amount_lamports P (wdSol S))) \<Longrightarrow>
   refreshWithdrawFee P C S = S\<lparr>wdFeeLamports := None\<rparr>"
  by (auto simp: refreshWithdrawFee_def Let_def positive_iff)

text \<open>
  C8. The amount in lamports is \<open>floor(max(0, parseFloat(wdSol || '0')) * 10^9)\<close>; an input
  that parses to NaN or to infinity gives NaN or infinity. Unless the amount is finite and
  above zero, the withdrawal sends nothing and pushes one error toast, and the fee refresh
  estimates no fee; a withdrawal that sends a transaction transfers exactly this amount,
  which is then finite and above zero.
\<close>

theorem withdrawal_amount_in_lamports:
  "amount_lamports P sol =
     Math_floor (js_times (pf_rnd P)
       (Math_max (Finite 0) (pf_parseFloat P (if sol = [] then ''0'' else sol)))
       (Finite (10 ^ 9)))
   \<and> (pf_parseFloat P (if sol = [] then ''0'' else sol) = NaN \<longrightarrow> amount_lamports P sol = NaN)
   \<and> (pf_parseFloat P (if sol = [] then ''0'' else sol) = PosInfinity \<longrightarrow>
        amount_lamports P sol = PosInfinity)
   \<and> (\<not> (Number_isFinite (amount_lamports P (wdSol S))
          \<and> js_less (Finite 0) (amount_lamports P (wdSol S))) \<longrightarrow>
        \<not> sends_transaction (snd (sendWithdrawSol P C S))
        \<and> (\<exists>msg. sendWithdrawSol P C S = (S, [PushToast ToastError msg None]))
        \<and> refreshWithdrawFee P C S = S\<lparr>wdFeeLamports := None\<rparr>)
   \<and> (SendTransaction (TransferTx tx) \<in> set (snd (sendWithdrawSol P C S)) \<longrightarrow>
        lamports tx = amount_lamports P (wdSol S)
        \<and> Number_isFinite (lamports tx) \<and> js_less (Finite 0) (lamports tx))"
proof (intro conjI impI)
  show "amount_lamports P sol =
     Math_floor (js_times (pf_rnd P)
       (Math_max (Finite 0) (pf_parseFloat P (if sol = [] then ''0'' else sol)))
       (Finite (10 ^ 9)))"
    by (simp add: amount_lamports_def LAMPORTS_PER_SOL_def)
next
  assume "pf_parseFloat P (if sol = [] then ''0'' else sol) = NaN"
  then show "amount_lamports P sol = NaN" by (rule amount_lamports_NaN)
next
  assume "pf_parseFloat P (if sol = [] then ''0'' else sol) = PosInfinity"
  then show "amount_lamports P sol = PosInfinity" by (rule amount_lamports_Infinity)
next
  assume bad: "\<not> (Number_isFinite (amount_lamports P (wdSol S))
          \<and> js_less (Finite 0) (amount_lamports P (wdSol S)))"
  then show m: "\<exists>msg. sendWithdrawSol P C S = (S, [PushToast ToastError msg None])"
    by (intro rejected_cases) blast
  then show "\<not> sends_transaction (snd (sendWithdrawSol P C S))"
    by (auto simp: sends_transaction_simps)
  from bad show "refreshWithdrawFee P C S = S\<lparr>wdFeeLamports := None\<rparr>"
    by (rule refreshWithdrawFee_bad_amount)
next
  assume sent: "SendTransaction (TransferTx tx) \<in> set (snd (sendWithdrawSol P C S))"
  then have "sends_transaction (snd (sendWithdrawSol P C S))"
    by (rule sends_transaction_member)
  from sendWithdrawSol_sends [OF this]
  have ok: "Number_isFinite (amount_lamports P (wdSol S))"
      "js_less (Finite 0) (amount_lamports P (wdSol S))"
    by auto
  from sent show l: "lamports tx = amount_lamports P (wdSol S)"
    by (auto simp: sendWithdrawSol_def Let_def split: option.splits if_splits)
  from ok l show "Number_isFinite (lamports tx)" and "js_less (Finite 0) (lamports tx)"
    by simp_all
qed

theorem withdrawal_amount_in_lamports_witness:
  "amount_lamports sample_platform ''0.1'' = Finite 100000000
   \<and> pf_parseFloat sample_platform ''abc'' = NaN
   \<and> amount_lamports sample_platform ''abc'' = NaN
   \<and> amount_lamports sample_platform (wdSol negative_withdraw) = Finite 0
   \<and> \<not> sends_transaction (snd (sendWithdrawSol sample_platform sample_chain negative_withdraw))
   \<and> refreshWithdrawFee sample_platform sample_chain negative_withdraw
       = negative_withdraw\<lparr>wdFeeLamports := None\<rparr>
   \<and> SendTransaction (TransferTx
          \<lparr>fromPubkey = PublicKey ''me00'', toPubkey = PublicKey ''you0'',
           lamports = Finite 100000000, recentBlockhash = ''bh2'',
           feePayer = PublicKey ''me00''\<rparr>)
        \<in> set (snd (sendWithdrawSol sample_platform sample_chain sample_withdraw))
   \<and> js_less (Finite 0) (Finite 100000000)"
proof -
  have nan: "pf_parseFloat sample_platform (if ''abc'' = [] then ''0'' else ''abc'') = NaN"
    by (simp add: sample_platform_def sample_parseFloat_def)
  have neg: "wdSol negative_withdraw = ''-2''"
    by (simp add: negative_withdraw_def sample_withdraw_def)
  have bad: "\<not> (Number_isFinite (amount_lamports sample_platform (wdSol negative_withdraw))
      \<and> js_less (Finite 0) (amount_lamports sample_platform (wdSol negative_withdraw)))"
    by (simp add: neg negative_amount)
  have sent: "SendTransaction (TransferTx
          \<lparr>fromPubkey = PublicKey ''me00'', toPubkey = PublicKey ''you0'',
           lamports = Finite 100000000, recentBlockhash = ''bh2'',
           feePayer = PublicKey ''me00''\<rparr>)
        \<in> set (snd (sendWithdrawSol sample_platform sample_chain sample_withdraw))"
    by (simp add: sample_sends)
  note first = withdrawal_amount_in_lamports
      [of sample_platform "''abc''" negative_withdraw sample_chain]
  note second = withdrawal_amount_in_lamports
      [of sample_platform "''0.1''" sample_withdraw sample_chain
        "\<lparr>fromPubkey = PublicKey ''me00'', toPubkey = PublicKey ''you0'',
           lamports = Finite 100000000, recentBlockhash = ''bh2'',
           feePayer = PublicKey ''me00''\<rparr>"]
  from first nan have a: "amount_lamports sample_platform ''abc'' = NaN"
    by blast
  from first bad
  have b: "\<not> sends_transaction (snd (sendWithdrawSol sample_platform sample_chain negative_withdraw))"
    and c: "refreshWithdrawFee sample_platform sample_chain negative_withdraw
       = negative_withdraw\<lparr>wdFeeLamports := None\<rparr>"
    by blast+
  from second sent
  have d: "js_less (Finite 0) (lamports \<lparr>fromPubkey = PublicKey ''me00'', toPubkey = PublicKey ''you0'',
           lamports = Finite 100000000, recentBlockhash = ''bh2'',
           feePayer = PublicKey ''me00''\<rparr>)"
    by blast
  have e: "pf_parseFloat sample_platform ''abc'' = NaN"
    by (simp add: sample_platform_def sample_parseFloat_def)
  from a b c d e sent show ?thesis
    by (simp add: neg negative_amount sample_amount)
qed

subsection \<open>Swapping\<close>

lemma doSwap_same_mint:
  "inMintStr S = outMintStr S \<Longrightarrow> \<exists>msg. doSwap P cfg H S = [PushToast ToastError msg None]"
  by (simp add: doSwap_def Let_def)

lemma act_offered_keeps_pair:
  "offered cfg a \<Longrightarrow> inMintStr S \<in> {SOL cfg, TROLL cfg} \<Longrightarrow> outMintStr S \<in> {SOL cfg, TROLL cfg} \<Longrightarrow>
   inMintStr (act S a) \<in> {SOL cfg, TROLL cfg} \<and> outMintStr (act S a) \<in> {SOL cfg, TROLL cfg}"
  by (cases a) (auto simp: from_options_def to_options_def)

lemma foldl_act_keeps_pair:
  "list_all (offered cfg) actions \<Longrightarrow>
   inMintStr S \<in> {SOL cfg, TROLL cfg} \<Longrightarrow> outMintStr S \<in> {SOL cfg, TROLL cfg} \<Longrightarrow>
   inMintStr (foldl act S actions) \<in> {SOL cfg, TROLL cfg}
   \<and> outMintStr (foldl act S actions) \<in> {SOL cfg, TROLL cfg}"
proof (induction actions arbitrary: S)
  case Nil
  then show ?case by simp
next
  case (Cons a actions)
  from Cons.prems have "offered cfg a" and rest: "list_all (offered cfg) actions"
    by simp_all
  from act_offered_keeps_pair [OF this(1) Cons.prems(2,3)]
  have "inMintStr (act S a) \<in> {SOL cfg, TROLL cfg}" "outMintStr (act S a) \<in> {SOL cfg, TROLL cfg}"
    by simp_all
  from Cons.IH [OF rest this] show ?case by simp
qed

text \<open>
  C6. When the input mint equals the output mint, \<open>doSwap\<close> pushes one error toast and does
  nothing else: no quote fetch, no transaction fetch and no transaction. Each selector
  offers the SOL mint and the TROLL mint and nothing else, so that in every state the
  selectors and the flip button lead to, a swap that fetches or sends anything has the SOL
  mint on one side and the TROLL mint on the other.
\<close>

theorem doSwap_single_pair:
  "(inMintStr S = outMintStr S \<longrightarrow>
      (\<exists>msg. doSwap P cfg H S = [PushToast ToastError msg None])
      \<and> \<not> list_ex is_fetch (doSwap P cfg H S))
   \<and> set (from_options cfg) = {SOL cfg, TROLL cfg}
   \<and> set (to_options cfg) = {SOL cfg, TROLL cfg}
   \<and> (initially cfg S0 \<and> list_all (offered cfg) actions
        \<and> list_ex is_fetch (doSwap P cfg H (foldl act S0 actions)) \<longrightarrow>
      {inMintStr (foldl act S0 actions), outMintStr (foldl act S0 actions)} = {SOL cfg, TROLL cfg})"
proof (intro conjI impI)
  assume same: "inMintStr S = outMintStr S"
  from doSwap_same_mint [OF this]
  show m: "\<exists>msg. doSwap P cfg H S = [PushToast ToastError msg None]" .
  then show "\<not> list_ex is_fetch (doSwap P cfg H S)"
    by auto
next
  show "set (from_options cfg) = {SOL cfg, TROLL cfg}"
    by (simp add: from_options_def)
  show "set (to_options cfg) = {SOL cfg, TROLL cfg}"
    by (auto simp: to_options_def)
next
  let ?S = "foldl act S0 actions"
  assume a: "initially cfg S0 \<and> list_all (offered cfg) actions
        \<and> list_ex is_fetch (doSwap P cfg H ?S)"
  then have "inMintStr S0 \<in> {SOL cfg, TROLL cfg}" "outMintStr S0 \<in> {SOL cfg, TROLL cfg}"
    by (simp_all add: initially_def)
  with a have pair: "inMintStr ?S \<in> {SOL cfg, TROLL cfg}" "outMintStr ?S \<in> {SOL cfg, TROLL cfg}"
    using foldl_act_keeps_pair [of cfg actions S0] by simp_all
  have "inMintStr ?S \<noteq> outMintStr ?S"
  proof
    assume "inMintStr ?S = outMintStr ?S"
    from doSwap_same_mint [OF this, of P cfg H] a show False by auto
  qed
  with pair show "{inMintStr ?S, outMintStr ?S} = {SOL cfg, TROLL cfg}"
    by auto
qed

theorem doSwap_single_pair_witness:
  "doSwap sample_platform sample_config sample_hook (sample_swap\<lparr>outMintStr := ''So11''\<rparr>)
     = [PushToast ToastError ''Select two different tokens.'' None]
   \<and> initially sample_config sample_swap
   \<and> list_all (offered sample_config) [SelectTo ''So11'', Flip, SelectTo ''Tr0l'']
   \<and> list_ex is_fetch (doSwap sample_platform sample_config sample_hook
        (foldl act sample_swap [SelectTo ''So11'', Flip, SelectTo ''Tr0l'']))
   \<and> {inMintStr (foldl act sample_swap [SelectTo ''So11'', Flip, SelectTo ''Tr0l'']),
       outMintStr (foldl act sample_swap [SelectTo ''So11'', Flip, SelectTo ''Tr0l''])}
      = {SOL sample_config, TROLL sample_config}"
proof -
  let ?same = "sample_swap\<lparr>outMintStr := ''So11''\<rparr>"
  have same: "inMintStr ?same = outMintStr ?same"
    by (simp add: sample_swap_def)
  have toast: "doSwap sample_platform sample_config sample_hook ?same
     = [PushToast ToastError ''Select two different tokens.'' None]"
    by (simp add: doSwap_def sample_swap_def sample_platform_def sample_parseFloat_def
          sample_config_def minUiForMint_def to_number_def MAX_VALUE_def bigIntIsZero_def)
  have init: "initially sample_config sample_swap"
    by (simp add: initially_def sample_config_def sample_swap_def)
  have off: "list_all (offered sample_config) [SelectTo ''So11'', Flip, SelectTo ''Tr0l'']"
    by (simp add: from_options_def to_options_def sample_config_def)
  have fetches: "list_ex is_fetch (doSwap sample_platform sample_config sample_hook
        (foldl act sample_swap [SelectTo ''So11'', Flip, SelectTo ''Tr0l'']))"
    by (simp add: doSwap_def sample_swap_def sample_platform_def sample_parseFloat_def
          sample_config_def minUiForMint_def to_number_def MAX_VALUE_def bigIntIsZero_def
          tryFetchQuoteSafe_def sample_hook_def swap_with_quote_def)
  from doSwap_single_pair [of ?same sample_platform sample_config sample_hook sample_swap
         "[SelectTo ''So11'', Flip, SelectTo ''Tr0l'']"]
    same toast init off fetches
  show ?thesis by blast
qed

subsection \<open>Subscriptions and the fast poll\<close>

lemma installs_poll_append: "installs_poll (xs @ ys) \<longleftrightarrow> installs_poll xs \<or> installs_poll ys"
  by (simp add: installs_poll_def)

lemma attempt_threw_append: "attempt_threw (xs @ ys) \<longleftrightarrow> attempt_threw xs \<or> attempt_threw ys"
  by (simp add: attempt_threw_def)

lemma trace_simps:
  "installs_poll [SetInterval ms]" "\<not> installs_poll []"
  "\<not> installs_poll [OnAccountChange a r]" "\<not> installs_poll [RefreshBalancesCalled]"
  "\<not> installs_poll [RemoveAccountChangeListener i]" "\<not> installs_poll [ClearInterval t]"
  "attempt_threw [OnAccountChange a None]" "\<not> attempt_threw []"
  by (simp_all add: installs_poll_def attempt_threw_def)

lemma start_poll_if_failed_follows:
  "poll_follows_throw s \<Longrightarrow> poll_follows_throw (start_poll_if_failed conn s)"
  by (auto simp: poll_follows_throw_def start_poll_if_failed_def installs_poll_append
        attempt_threw_append trace_simps split: if_splits)

lemma subscribe_troll_follows:
  "poll_follows_throw s \<Longrightarrow> poll_follows_throw (subscribe_troll conn s)"
proof (cases "trollAcctRef s")
  case None
  assume "poll_follows_throw s"
  with None show ?thesis
    by (simp add: subscribe_troll_def start_poll_if_failed_follows)
next
  case (Some acct)
  assume a: "poll_follows_throw s"
  show ?thesis
  proof (cases "troll_subscription conn")
    case None
    have "poll_follows_throw (s\<lparr>wsFailed := True, events := events s @ [OnAccountChange acct None]\<rparr>)"
      by (simp add: poll_follows_throw_def attempt_threw_append trace_simps)
    with Some None show ?thesis
      by (simp add: subscribe_troll_def start_poll_if_failed_follows)
  next
    case (Some troll_id)
    with a \<open>trollAcctRef s = Some acct\<close> show ?thesis
      by (auto simp: subscribe_troll_def poll_follows_throw_def installs_poll_append
            attempt_threw_append trace_simps split: if_splits)
  qed
qed

lemma resume_follows: "poll_follows_throw s \<Longrightarrow> poll_follows_throw (resume conn s)"
proof (cases "suspended s")
  case (AwaitSubscription sol_id)
  assume a: "poll_follows_throw s"
  then have b: "poll_follows_throw (s\<lparr>solSubId := Some sol_id\<rparr>)"
    by (simp add: poll_follows_throw_def)
  from a have c: "poll_follows_throw (s\<lparr>solSubId := Some sol_id,
      events := events s @ [RefreshBalancesCalled], suspended := AwaitRefresh\<rparr>)"
    by (auto simp: poll_follows_throw_def installs_poll_append attempt_threw_append trace_simps
          split: if_splits)
  from AwaitSubscription b c show ?thesis
    by (simp add: resume_def Let_def subscribe_troll_follows)
next
  case AwaitRefresh
  assume "poll_follows_throw s"
  then have "poll_follows_throw (s\<lparr>trollAcctRef := troll_account conn\<rparr>)"
    by (simp add: poll_follows_throw_def)
  with AwaitRefresh show ?thesis
    by (simp add: resume_def subscribe_troll_follows)
next
  case (AwaitTrollSubscription troll_id)
  assume "poll_follows_throw s"
  then have "poll_follows_throw (s\<lparr>trollSubId := Some troll_id\<rparr>)"
    by (simp add: poll_follows_throw_def)
  with AwaitTrollSubscription show ?thesis
    by (simp add: resume_def start_poll_if_failed_follows)
next
  case Finished
  assume "poll_follows_throw s"
  with Finished show ?thesis by (simp add: resume_def)
qed

lemma cleanup_follows: "poll_follows_throw s \<Longrightarrow> poll_follows_throw (cleanup s)"
  by (auto simp: poll_follows_throw_def cleanup_def Let_def installs_poll_append
        attempt_threw_append trace_simps split: option.splits if_splits)

lemma turns_follow:
  "poll_follows_throw s \<Longrightarrow> poll_follows_throw (foldl (take_turn conn) s turns)"
proof (induction turns arbitrary: s)
  case Nil
  then show ?case by simp
next
  case (Cons t turns)
  then show ?case
    by (cases t) (simp_all add: resume_follows cleanup_follows)
qed

lemma ws_effect_follows:
  "ws_effect cfg conn pk poll acct = Some s \<Longrightarrow>
   poll_follows_throw s \<and> ws_configured cfg \<and> pk \<noteq> None"
proof -
  assume run: "ws_effect cfg conn pk poll acct = Some s"
  then obtain me where me: "pk = Some me" and cfg: "ws_configured cfg"
    by (cases pk) (auto simp: ws_effect_def split: if_splits)
  show ?thesis
  proof (cases "sol_subscription conn")
    case None
    let ?s = "\<lparr>solSubId = None, trollSubId = None, wsFailed = True,
                fastPollRef = poll, trollAcctRef = acct, suspended = Finished,
                listeners = [],
                intervals = (case poll of None \<Rightarrow> [] | Some t \<Rightarrow> [t]),
                events = [OnAccountChange me None]\<rparr>"
    have "poll_follows_throw ?s"
      by (simp add: poll_follows_throw_def trace_simps)
    then have "poll_follows_throw (start_poll_if_failed conn ?s)"
      by (rule start_poll_if_failed_follows)
    with run me cfg None show ?thesis
      by (auto simp: ws_effect_def Let_def)
  next
    case (Some sol_id)
    with run me cfg show ?thesis
      by (auto simp: ws_effect_def Let_def poll_follows_throw_def trace_simps)
  qed
qed

lemma poll_only_after_throw:
  assumes "ws_effect cfg conn pk poll acct = Some s"
    and "installs_poll (events (foldl (take_turn conn) s turns))"
  shows "ws_configured cfg \<and> pk \<noteq> None \<and> attempt_threw (events (foldl (take_turn conn) s turns))"
proof -
  from ws_effect_follows [OF assms(1)]
  have start: "poll_follows_throw s" and rest: "ws_configured cfg \<and> pk \<noteq> None"
    by simp_all
  from turns_follow [OF start, of conn turns] assms(2)
  have "attempt_threw (events (foldl (take_turn conn) s turns))"
    by (simp add: poll_follows_throw_def)
  with rest show ?thesis by simp
qed

lemma start_poll_if_failed_untroubled:
  "untroubled s \<Longrightarrow> untroubled (start_poll_if_failed conn s)"
  by (simp add: untroubled_def start_poll_if_failed_def)

lemma subscribe_troll_untroubled:
  assumes "troll_subscription conn \<noteq> None" and "untroubled s"
  shows "untroubled (subscribe_troll conn s)"
proof (cases "trollAcctRef s")
  case None
  with assms(2) show ?thesis
    by (simp add: subscribe_troll_def start_poll_if_failed_untroubled)
next
  case (Some acct)
  with assms show ?thesis
    by (auto simp: subscribe_troll_def untroubled_def installs_poll_append trace_simps)
qed

lemma resume_untroubled:
  assumes "troll_subscription conn \<noteq> None" and "untroubled s"
  shows "untroubled (resume conn s)"
proof (cases "suspended s")
  case (AwaitSubscription sol_id)
  from assms(2) have b: "untroubled (s\<lparr>solSubId := Some sol_id\<rparr>)"
    by (simp add: untroubled_def)
  from assms(2) have c: "untroubled (s\<lparr>solSubId := Some sol_id,
      events := events s @ [RefreshBalancesCalled], suspended := AwaitRefresh\<rparr>)"
    by (simp add: untroubled_def installs_poll_append trace_simps)
  from AwaitSubscription b c assms(1) show ?thesis
    by (simp add: resume_def Let_def subscribe_troll_untroubled)
next
  case AwaitRefresh
  from assms(2) have "untroubled (s\<lparr>trollAcctRef := troll_account conn\<rparr>)"
    by (simp add: untroubled_def)
  with AwaitRefresh assms(1) show ?thesis
    by (simp add: resume_def subscribe_troll_untroubled)
next
  case (AwaitTrollSubscription troll_id)
  from assms(2) have "untroubled (s\<lparr>trollSubId := Some troll_id\<rparr>)"
    by (simp add: untroubled_def)
  with AwaitTrollSubscription show ?thesis
    by (simp add: resume_def start_poll_if_failed_untroubled)
next
  case Finished
  with assms(2) show ?thesis by (simp add: resume_def)
qed

lemma cleanup_untroubled: "untroubled s \<Longrightarrow> untroubled (cleanup s)"
  by (auto simp: untroubled_def cleanup_def Let_def installs_poll_append trace_simps
        split: option.splits)

lemma turns_untroubled:
  "troll_subscription conn \<noteq> None \<Longrightarrow> untroubled s \<Longrightarrow>
   untroubled (foldl (take_turn conn) s turns)"
proof (induction turns arbitrary: s)
  case Nil
  then show ?case by simp
next
  case (Cons t turns)
  then show ?case
    by (cases t) (simp_all add: resume_untroubled cleanup_untroubled)
qed

lemma no_poll_while_subscribed:
  assumes "ws_effect cfg conn pk poll acct = Some s"
    and "sol_subscription conn \<noteq> None" and "troll_subscription conn \<noteq> None"
  shows "\<not> installs_poll (events (foldl (take_turn conn) s turns))"
proof -
  from assms(1,2) have "untroubled s"
    by (cases pk) (auto simp: ws_effect_def Let_def untroubled_def trace_simps split: if_splits)
  from turns_untroubled [OF assms(3) this, of turns] show ?thesis
    by (simp add: untroubled_def)
qed

lemma start_poll_if_failed_accounted:
  "set (listeners s) = set_option (solSubId s) \<union> set_option (trollSubId s) \<Longrightarrow>
   set (intervals s) = set_option (fastPollRef s) \<Longrightarrow>
   accounted (start_poll_if_failed conn s)"
  by (auto simp: accounted_def start_poll_if_failed_def pending_id_def)

lemma subscribe_troll_accounted:
  assumes "set (listeners s) = set_option (solSubId s)" and "trollSubId s = None"
    and "set (intervals s) = set_option (fastPollRef s)"
  shows "accounted (subscribe_troll conn s)"
proof (cases "trollAcctRef s")
  case None
  with assms show ?thesis
    by (simp add: subscribe_troll_def start_poll_if_failed_accounted)
next
  case (Some acct)
  show ?thesis
  proof (cases "troll_subscription conn")
    case None
    with Some assms show ?thesis
      by (simp add: subscribe_troll_def start_poll_if_failed_accounted)
  next
    case (Some troll_id)
    with assms \<open>trollAcctRef s = Some acct\<close> show ?thesis
      by (auto simp: subscribe_troll_def accounted_def pending_id_def)
  qed
qed

lemma resume_accounted: "accounted s \<Longrightarrow> accounted (resume conn s)"
proof (cases "suspended s")
  case (AwaitSubscription sol_id)
  assume a: "accounted s"
  let ?s1 = "s\<lparr>solSubId := Some sol_id\<rparr>"
  from a AwaitSubscription
  have l: "set (listeners ?s1) = set_option (solSubId ?s1)"
    and t: "trollSubId ?s1 = None"
    and i: "set (intervals ?s1) = set_option (fastPollRef ?s1)"
    by (auto simp: accounted_def pending_id_def)
  from a AwaitSubscription
  have c: "accounted (s\<lparr>solSubId := Some sol_id,
      events := events s @ [RefreshBalancesCalled], suspended := AwaitRefresh\<rparr>)"
    by (auto simp: accounted_def pending_id_def)
  from AwaitSubscription c subscribe_troll_accounted [OF l t i, of conn] show ?thesis
    by (simp add: resume_def Let_def)
next
  case AwaitRefresh
  assume a: "accounted s"
  let ?s1 = "s\<lparr>trollAcctRef := troll_account conn\<rparr>"
  from a AwaitRefresh
  have "set (listeners ?s1) = set_option (solSubId ?s1)"
    and "trollSubId ?s1 = None"
    and "set (intervals ?s1) = set_option (fastPollRef ?s1)"
    by (auto simp: accounted_def pending_id_def)
  from subscribe_troll_accounted [OF this, of conn] AwaitRefresh show ?thesis
    by (simp add: resume_def)
next
  case (AwaitTrollSubscription troll_id)
  assume a: "accounted s"
  let ?s1 = "s\<lparr>trollSubId := Some troll_id\<rparr>"
  from a AwaitTrollSubscription
  have "set (listeners ?s1) = set_option (solSubId ?s1) \<union> set_option (trollSubId ?s1)"
    and "set (intervals ?s1) = set_option (fastPollRef ?s1)"
    by (auto simp: accounted_def pending_id_def)
  from start_poll_if_failed_accounted [OF this, of conn] AwaitTrollSubscription show ?thesis
    by (simp add: resume_def)
next
  case Finished
  assume "accounted s"
  with Finished show ?thesis by (simp add: resume_def)
qed

lemma ws_effect_accounted: "ws_effect cfg conn pk poll acct = Some s \<Longrightarrow> accounted s"
proof -
  assume run: "ws_effect cfg conn pk poll acct = Some s"
  then obtain me where me: "pk = Some me" and cfg: "ws_configured cfg"
    by (cases pk) (auto simp: ws_effect_def split: if_splits)
  show ?thesis
  proof (cases "sol_subscription conn")
    case None
    let ?s = "\<lparr>solSubId = None, trollSubId = None, wsFailed = True,
                fastPollRef = poll, trollAcctRef = acct, suspended = Finished,
                listeners = [],
                intervals = (case poll of None \<Rightarrow> [] | Some t \<Rightarrow> [t]),
                events = [OnAccountChange me None]\<rparr>"
    have "accounted (start_poll_if_failed conn ?s)"
      by (rule start_poll_if_failed_accounted) (auto split: option.splits)
    with run me cfg None show ?thesis
      by (auto simp: ws_effect_def Let_def)
  next
    case (Some sol_id)
    with run me cfg show ?thesis
      by (auto simp: ws_effect_def Let_def accounted_def pending_id_def split: option.splits)
  qed
qed

lemma resumes_accounted: "accounted s \<Longrightarrow> accounted ((resume conn ^^ n) s)"
  by (induction n) (simp_all add: resume_accounted)

lemma removeAll_one: "set xs \<subseteq> {x} \<Longrightarrow> removeAll x xs = []"
  by (induction xs) auto

lemma removeAll_two: "set xs \<subseteq> {x, y} \<Longrightarrow> removeAll y (removeAll x xs) = []"
  by (induction xs) auto

lemma cleanup_of_finished:
  assumes "accounted s" and "suspended s = Finished"
  shows "listeners (cleanup s) = [] \<and> intervals (cleanup s) = [] \<and> fastPollRef (cleanup s) = None"
proof -
  from assms have l: "set (listeners s) = set_option (solSubId s) \<union> set_option (trollSubId s)"
    and i: "set (intervals s) = set_option (fastPollRef s)"
    by (simp_all add: accounted_def pending_id_def)
  from l have "listeners (cleanup s) = []"
    by (cases "solSubId s"; cases "trollSubId s"; cases "fastPollRef s")
      (simp_all add: cleanup_def Let_def removeAll_one removeAll_two)
  moreover from i have "intervals (cleanup s) = []"
    by (cases "solSubId s"; cases "trollSubId s"; cases "fastPollRef s")
      (simp_all add: cleanup_def Let_def removeAll_one)
  moreover have "fastPollRef (cleanup s) = None"
    by (cases "solSubId s"; cases "trollSubId s"; cases "fastPollRef s")
      (simp_all add: cleanup_def Let_def)
  ultimately show ?thesis by simp
qed

lemma cleanup_after_body:
  assumes "ws_effect cfg conn pk poll acct = Some s"
    and "suspended ((resume conn ^^ n) s) = Finished"
  shows "listeners (cleanup ((resume conn ^^ n) s)) = []
     \<and> intervals (cleanup ((resume conn ^^ n) s)) = []
     \<and> fastPollRef (cleanup ((resume conn ^^ n) s)) = None"
  using cleanup_of_finished [OF resumes_accounted [OF ws_effect_accounted [OF assms(1)]] assms(2)] .


lemma start_poll_if_failed_finished: "suspended (start_poll_if_failed conn s) = Finished"
  by (simp add: start_poll_if_failed_def)

lemma subscribe_troll_remaining: "remaining (suspended (subscribe_troll conn s)) \<le> 1"
  by (simp add: subscribe_troll_def start_poll_if_failed_finished split: option.splits)

lemma resume_remaining: "remaining (suspended (resume conn s)) \<le> remaining (suspended s) - 1"
proof (cases "suspended s")
  case (AwaitSubscription sol_id)
  with subscribe_troll_remaining [of conn "s\<lparr>solSubId := Some sol_id\<rparr>"] show ?thesis
    by (simp add: resume_def Let_def)
next
  case AwaitRefresh
  with subscribe_troll_remaining [of conn "s\<lparr>trollAcctRef := troll_account conn\<rparr>"] show ?thesis
    by (simp add: resume_def)
qed (simp_all add: resume_def start_poll_if_failed_finished)

lemma resumes_remaining:
  "remaining (suspended ((resume conn ^^ n) s)) \<le> remaining (suspended s) - n"
proof (induction n)
  case 0
  then show ?case by simp
next
  case (Suc n)
  from resume_remaining [of conn "(resume conn ^^ n) s"] Suc show ?case
    by simp
qed

lemma body_finishes: "suspended ((resume conn ^^ 3) s) = Finished"
proof -
  have "remaining (suspended s) \<le> 3" by (cases "suspended s") simp_all
  with resumes_remaining [of 3 conn s] have "remaining (suspended ((resume conn ^^ 3) s)) = 0"
    by simp
  then show ?thesis by (cases "suspended ((resume conn ^^ 3) s)") simp_all
qed

text \<open>
  C7. The cleanup does not always remove both listeners and clear the poll. When React
  calls it while the body awaits \<open>refreshBalances\<close>, it removes the listener of the wallet's
  account only: the subscription to the token account that the body makes afterwards stays
  alive, and where that subscription throws, the poll the body then starts is never
  cleared. Called after the body has finished, the same cleanup leaves nothing alive.
\<close>

theorem cleanup_during_refresh_leaves_listener:
  "ws_effect sample_config working_connection (Some (PublicKey ''me00'')) None None
     = Some working_start
   \<and> ws_effect sample_config failing_connection (Some (PublicKey ''me00'')) None None
     = Some working_start
   \<and> suspended (foldl (take_turn working_connection) working_start
        [Resume, Cleanup, Resume, Resume]) = Finished
   \<and> events (foldl (take_turn working_connection) working_start
        [Resume, Cleanup, Resume, Resume])
     = [OnAccountChange (PublicKey ''me00'') (Some 1), RefreshBalancesCalled,
        RemoveAccountChangeListener 1, OnAccountChange (PublicKey ''acct'') (Some 2)]
   \<and> listeners (foldl (take_turn working_connection) working_start
        [Resume, Cleanup, Resume, Resume]) = [2]
   \<and> events (foldl (take_turn failing_connection) working_start
        [Resume, Cleanup, Resume, Resume])
     = [OnAccountChange (PublicKey ''me00'') (Some 1), RefreshBalancesCalled,
        RemoveAccountChangeListener 1, OnAccountChange (PublicKey ''acct'') None,
        SetInterval 3000]
   \<and> intervals (foldl (take_turn failing_connection) working_start
        [Resume, Cleanup, Resume, Resume]) = [Timer 7]
   \<and> listeners (foldl (take_turn working_connection) working_start
        [Resume, Resume, Resume, Cleanup]) = []
   \<and> intervals (foldl (take_turn failing_connection) working_start
        [Resume, Resume, Resume, Cleanup]) = []"
  by (simp add: ws_effect_def ws_configured_def sample_config_def working_connection_def
        failing_connection_def working_start_def resume_def cleanup_def subscribe_troll_def
        start_poll_if_failed_def Let_def)

end
